theory Spec2Isabelle
  imports Main "HOL-Library.Word"
begin

text \<open>
  A shallow embedding of the build-cache program: \<^verbatim>\<open>main.go\<close> (requests and responses,
  \<^verbatim>\<open>Cacher.Get\<close>, \<^verbatim>\<open>Cacher.Put\<close>, the loop and the request tasks of \<^verbatim>\<open>run\<close>) and the storage
  file (\<^verbatim>\<open>Disk\<close>, \<^verbatim>\<open>Bucket\<close>). Every function of the program is a function on an explicit
  world: the file system, the object store, the upload queue. Go's multiple results are
  tuples, a nil error is \<open>None\<close>, a panic is an outcome of its own. The packages the
  program calls (\<^verbatim>\<open>path/filepath\<close>, \<^verbatim>\<open>encoding/hex\<close>, \<^verbatim>\<open>os\<close>, \<^verbatim>\<open>io\<close>, \<^verbatim>\<open>gocloud.dev/blob\<close>,
  \<^verbatim>\<open>gcerrors\<close>) are given by what their calls do to that world.

  Up to the last two sections the tasks of a session run one after the other, each to
  its end. The last two sections look at tasks that run together: the tasks around the
  upload queue, and the callers of the cacher that share a call in flight.
\<close>

section \<open>Paths, hex strings and decimal numerals\<close>

text \<open>
  The program runs on a Unix system, where \<^verbatim>\<open>path/filepath\<close> and \<^verbatim>\<open>path\<close> agree: the
  separator is \<open>/\<close>. \<open>Join\<close> drops leading empty elements, joins the rest with the
  separator and cleans the result; \<open>Clean\<close> removes empty and \<open>.\<close> elements and resolves
  \<open>..\<close> lexically.
\<close>

type_synonym byte = "8 word"

fun split_sep :: "string \<Rightarrow> string list" where
  "split_sep [] = [[]]"
| "split_sep (c # cs) =
     (if c = CHR ''/'' then [] # split_sep cs
      else (case split_sep cs of [] \<Rightarrow> [[c]] | x # xs \<Rightarrow> (c # x) # xs))"

fun join_sep :: "string list \<Rightarrow> string" where
  "join_sep [] = []"
| "join_sep [e] = e"
| "join_sep (e # es) = e @ ''/'' @ join_sep es"

text \<open>The second argument is the stack of elements kept so far, topmost first.\<close>

fun clean_elems :: "bool \<Rightarrow> string list \<Rightarrow> string list \<Rightarrow> string list" where
  "clean_elems rooted acc [] = rev acc"
| "clean_elems rooted acc (e # es) =
     (if e = [] \<or> e = ''.'' then clean_elems rooted acc es
      else if e = ''..'' then
        (case acc of
           [] \<Rightarrow> clean_elems rooted (if rooted then [] else [e]) es
         | a # as \<Rightarrow>
             if a = ''..'' then clean_elems rooted (e # acc) es
             else clean_elems rooted as es)
      else clean_elems rooted (e # acc) es)"

definition path_Clean :: "string \<Rightarrow> string" where
  "path_Clean p =
     (if p = [] then ''.''
      else
        let rooted = (hd p = CHR ''/'');
            out = (if rooted then ''/'' else []) @ join_sep (clean_elems rooted [] (split_sep p))
        in if out = [] then ''.'' else out)"

definition path_Join :: "string list \<Rightarrow> string" where
  "path_Join elem =
     (case dropWhile (\<lambda>e. e = []) elem of
        [] \<Rightarrow> []
      | es \<Rightarrow> path_Clean (join_sep es))"

definition filepath_Join :: "string list \<Rightarrow> string" where
  "filepath_Join elem = path_Join elem"

fun strip_trailing_sep :: "string \<Rightarrow> string" where
  "strip_trailing_sep p = rev (dropWhile (\<lambda>c. c = CHR ''/'') (rev p))"

definition filepath_Base :: "string \<Rightarrow> string" where
  "filepath_Base p =
     (if p = [] then ''.''
      else
        let b = last (split_sep (strip_trailing_sep p))
        in if b = [] then ''/'' else b)"

definition filepath_Dir :: "string \<Rightarrow> string" where
  "filepath_Dir p =
     path_Clean (rev (dropWhile (\<lambda>c. c \<noteq> CHR ''/'') (rev p)))"

text \<open>\<^verbatim>\<open>hex.EncodeToString\<close> writes two lower-case digits per byte.\<close>

definition hexdigit :: "nat \<Rightarrow> char" where
  "hexdigit n = ''0123456789abcdef'' ! (n mod 16)"

definition hex_EncodeToString :: "byte list \<Rightarrow> string" where
  "hex_EncodeToString bs =
     concat (map (\<lambda>b. [hexdigit (unat b div 16), hexdigit (unat b mod 16)]) bs)"

definition fromHexChar :: "char \<Rightarrow> nat option" where
  "fromHexChar c =
     (let n = (of_char c :: nat) in
      if 48 \<le> n \<and> n \<le> 57 then Some (n - 48)
      else if 97 \<le> n \<and> n \<le> 102 then Some (n - 97 + 10)
      else if 65 \<le> n \<and> n \<le> 70 then Some (n - 65 + 10)
      else None)"

datatype hexerr = InvalidByteError char | ErrLength

text \<open>
  \<^verbatim>\<open>hex.DecodeString\<close> returns the bytes decoded before the first bad digit together
  with the error; a string of odd length whose digits are all valid ends in \<open>ErrLength\<close>.
\<close>

fun hex_DecodeString :: "string \<Rightarrow> byte list \<times> hexerr option" where
  "hex_DecodeString [] = ([], None)"
| "hex_DecodeString [p] =
     (case fromHexChar p of None \<Rightarrow> ([], Some (InvalidByteError p)) | Some _ \<Rightarrow> ([], Some ErrLength))"
| "hex_DecodeString (p # q # s) =
     (case fromHexChar p of
        None \<Rightarrow> ([], Some (InvalidByteError p))
      | Some a \<Rightarrow>
          (case fromHexChar q of
             None \<Rightarrow> ([], Some (InvalidByteError q))
           | Some b \<Rightarrow>
               (case hex_DecodeString s of (bs, e) \<Rightarrow> (word_of_nat (a * 16 + b) # bs, e))))"

text \<open>
  \<^verbatim>\<open>os.CreateTemp\<close> appends a random 32-bit number in decimal to the pattern
  (\<^verbatim>\<open>strconv.FormatUint(.., 10)\<close>).
\<close>

definition decdigit :: "nat \<Rightarrow> char" where
  "decdigit n = ''0123456789'' ! (n mod 10)"

function itoa :: "nat \<Rightarrow> string" where
  "itoa n = (if n < 10 then [decdigit n] else itoa (n div 10) @ [decdigit n])"
  by pat_completeness auto
termination
  by (relation "measure id") auto

declare itoa.simps [simp del]

section \<open>Errors\<close>

text \<open>
  Go errors as values. \<open>PathError op path errno\<close> and \<open>LinkError op old new errno\<close> are the
  errors of package \<^verbatim>\<open>os\<close>; \<open>GcError\<close> is an error of the object store carrying its
  \<^verbatim>\<open>gcerrors\<close> code; \<open>Errorf prefix err\<close> is \<^verbatim>\<open>fmt.Errorf(prefix + "%w", err)\<close>, which wraps
  \<open>err\<close>; \<open>ErrorString\<close> is \<^verbatim>\<open>errors.New\<close> or an \<^verbatim>\<open>Errorf\<close> without \<^verbatim>\<open>%w\<close>.
\<close>

datatype errno = ENOENT | EEXIST | EINVAL | EACCES | ENOSPC | EIO | ENOTDIR | EISDIR | ELOOP

datatype gccode =
  OK | Unknown | NotFound | AlreadyExists | InvalidArgument | Internal | Unimplemented
  | FailedPrecondition | PermissionDenied | ResourceExhausted | Canceled | DeadlineExceeded

datatype error =
  PathError string string errno
  | LinkError string string string errno
  | GcError gccode string
  | Errorf string error
  | ErrorString string

fun errno_text :: "errno \<Rightarrow> string" where
  "errno_text ENOENT = ''no such file or directory''"
| "errno_text EEXIST = ''file exists''"
| "errno_text EINVAL = ''invalid argument''"
| "errno_text EACCES = ''permission denied''"
| "errno_text ENOSPC = ''no space left on device''"
| "errno_text EIO = ''input/output error''"
| "errno_text ENOTDIR = ''not a directory''"
| "errno_text EISDIR = ''is a directory''"
| "errno_text ELOOP = ''too many levels of symbolic links''"

fun gccode_text :: "gccode \<Rightarrow> string" where
  "gccode_text OK = ''OK''"
| "gccode_text Unknown = ''Unknown''"
| "gccode_text NotFound = ''NotFound''"
| "gccode_text AlreadyExists = ''AlreadyExists''"
| "gccode_text InvalidArgument = ''InvalidArgument''"
| "gccode_text Internal = ''Internal''"
| "gccode_text Unimplemented = ''Unimplemented''"
| "gccode_text FailedPrecondition = ''FailedPrecondition''"
| "gccode_text PermissionDenied = ''PermissionDenied''"
| "gccode_text ResourceExhausted = ''ResourceExhausted''"
| "gccode_text Canceled = ''Canceled''"
| "gccode_text DeadlineExceeded = ''DeadlineExceeded''"

text \<open>The method \<^verbatim>\<open>Error()\<close>.\<close>

fun err_Error :: "error \<Rightarrow> string" where
  "err_Error (PathError op p e) = op @ '' '' @ p @ '': '' @ errno_text e"
| "err_Error (LinkError op old new e) = op @ '' '' @ old @ '' '' @ new @ '': '' @ errno_text e"
| "err_Error (GcError c msg) = msg @ '' (code='' @ gccode_text c @ '')''"
| "err_Error (Errorf prefix err) = prefix @ err_Error err"
| "err_Error (ErrorString s) = s"

text \<open>\<^verbatim>\<open>errors.Is(err, os.ErrNotExist)\<close> and \<^verbatim>\<open>errors.Is(err, os.ErrExist)\<close> look through wrappers.\<close>

fun is_ErrNotExist :: "error \<Rightarrow> bool" where
  "is_ErrNotExist (PathError _ _ e) = (e = ENOENT)"
| "is_ErrNotExist (LinkError _ _ _ e) = (e = ENOENT)"
| "is_ErrNotExist (Errorf _ err) = is_ErrNotExist err"
| "is_ErrNotExist _ = False"

fun is_ErrExist :: "error \<Rightarrow> bool" where
  "is_ErrExist (PathError _ _ e) = (e = EEXIST)"
| "is_ErrExist (LinkError _ _ _ e) = (e = EEXIST)"
| "is_ErrExist (Errorf _ err) = is_ErrExist err"
| "is_ErrExist _ = False"

text \<open>
  \<^verbatim>\<open>gcerrors.Code\<close>: \<open>OK\<close> for the nil error, the code of the first store error in the
  chain of wrappers, \<open>Unknown\<close> for any other error.
\<close>

fun code_of :: "error \<Rightarrow> gccode" where
  "code_of (GcError c _) = c"
| "code_of (Errorf _ err) = code_of err"
| "code_of _ = Unknown"

definition gcerrors_Code :: "error option \<Rightarrow> gccode" where
  "gcerrors_Code err = (case err of None \<Rightarrow> OK | Some e \<Rightarrow> code_of e)"

section \<open>The world: file system, object store, upload queue\<close>

datatype node =
  File (content: "byte list") (modtime: "64 word")
  | Dir (dirsize: "64 word") (dirtime: "64 word")
  | Symlink (target: string)

type_synonym filesystem = "string \<Rightarrow> node option"

record object =
  body :: "byte list"
  metadata :: "string \<Rightarrow> string option"
  content_type :: string

datatype syscall =
  SysCreate string
  | SysWrite string
  | SysClose string
  | SysRename string string
  | SysOpen string

datatype rcall = Attributes string | Download string | Upload string

text \<open>
  Everything the program reads or changes. \<open>io_fault\<close> and \<open>gc_fault\<close> are the
  environment's failures: a system call on the write path of a blob (creating the
  temporary file, writing, closing, renaming, opening for upload) or a call of the
  object store fails when the oracle names an error for it. The other system calls
  (\<^verbatim>\<open>Stat\<close>, \<^verbatim>\<open>Readlink\<close>, \<^verbatim>\<open>Symlink\<close>, and the two whose result the program
  discards, \<^verbatim>\<open>WriteFile\<close> and \<^verbatim>\<open>RemoveAll\<close>) succeed or fail as the file system in
  front of them decides; the directory a path lies in is taken to exist, as \<^verbatim>\<open>run\<close>
  creates both directories before the first request. \<open>rand\<close> is the stream of
  random numbers \<^verbatim>\<open>os.CreateTemp\<close> draws from, \<open>remote_log\<close> the calls made to the object
  store so far, \<open>jobs\<close> the buffer of the channel \<^verbatim>\<open>b.jobs\<close>, \<open>errlog\<close> the records of
  \<^verbatim>\<open>slog.Error\<close> (message, path, error; the other log lines are not modelled).
\<close>

record world =
  fs :: filesystem
  clock :: "64 word"
  io_fault :: "syscall \<Rightarrow> errno option"
  rand :: "nat \<Rightarrow> 32 word"
  rand_pos :: nat
  objects :: "string \<Rightarrow> object option"
  gc_fault :: "rcall \<Rightarrow> (gccode \<times> string) option"
  remote_log :: "rcall list"
  jobs :: "string list"
  jobs_closed :: bool
  errlog :: "(string \<times> string \<times> error) list"

subsection \<open>System calls\<close>

record fileinfo =
  fi_Size :: "64 word"
  fi_ModTime :: "64 word"

definition resolve_link :: "string \<Rightarrow> string \<Rightarrow> string" where
  "resolve_link p t =
     (if t \<noteq> [] \<and> hd t = CHR ''/'' then path_Clean t
      else path_Join [filepath_Dir p, t])"

text \<open>
  Path resolution follows symbolic links in the last component, at most 40 of them
  (\<open>ELOOP\<close> after that). The result is a path that is not a link: a file, a
  directory, or nothing.
\<close>

fun follow :: "nat \<Rightarrow> filesystem \<Rightarrow> string \<Rightarrow> errno + string" where
  "follow 0 f p = Inl ELOOP"
| "follow (Suc n) f p =
     (case f p of
        Some (Symlink t) \<Rightarrow> follow n f (resolve_link p t)
      | _ \<Rightarrow> Inr p)"

definition os_Stat :: "filesystem \<Rightarrow> string \<Rightarrow> error + fileinfo" where
  "os_Stat f p =
     (if p = [] then Inl (PathError ''stat'' p ENOENT)
      else
        (case follow (Suc 40) f p of
           Inl e \<Rightarrow> Inl (PathError ''stat'' p e)
         | Inr q \<Rightarrow>
             (case f q of
                Some (File c t) \<Rightarrow> Inr \<lparr>fi_Size = word_of_nat (length c), fi_ModTime = t\<rparr>
              | Some (Dir sz t) \<Rightarrow> Inr \<lparr>fi_Size = sz, fi_ModTime = t\<rparr>
              | Some (Symlink _) \<Rightarrow> Inl (PathError ''stat'' p ELOOP)
              | None \<Rightarrow> Inl (PathError ''stat'' p ENOENT))))"

definition os_Readlink :: "filesystem \<Rightarrow> string \<Rightarrow> error + string" where
  "os_Readlink f p =
     (case f p of
        None \<Rightarrow> Inl (PathError ''readlink'' p ENOENT)
      | Some (Symlink t) \<Rightarrow> Inr t
      | Some _ \<Rightarrow> Inl (PathError ''readlink'' p EINVAL))"

definition os_Symlink :: "world \<Rightarrow> string \<Rightarrow> string \<Rightarrow> error option \<times> world" where
  "os_Symlink w old new =
     (if fs w new \<noteq> None then (Some (LinkError ''symlink'' old new EEXIST), w)
      else (None, w\<lparr>fs := (fs w)(new \<mapsto> Symlink old)\<rparr>))"

text \<open>
  \<^verbatim>\<open>os.WriteFile(name, data, perm)\<close> creates or truncates the file the name resolves
  to. The one call in the program discards its result, so only the world is returned.
\<close>

definition os_WriteFile :: "world \<Rightarrow> string \<Rightarrow> byte list \<Rightarrow> world" where
  "os_WriteFile w p data =
     (if p = [] then w
      else
        (case follow (Suc 40) (fs w) p of
           Inl e \<Rightarrow> w
         | Inr q \<Rightarrow>
             (case fs w q of
                Some (Dir _ _) \<Rightarrow> w
              | _ \<Rightarrow> w\<lparr>fs := (fs w)(q \<mapsto> File data (clock w))\<rparr>)))"

text \<open>The test \<^verbatim>\<open>err == nil\<close> on the result of a call.\<close>

definition err_nil :: "error + 'a \<Rightarrow> bool" where
  "err_nil x = (case x of Inl _ \<Rightarrow> False | Inr _ \<Rightarrow> True)"

text \<open>
  \<^verbatim>\<open>os.CreateTemp(dir, pattern)\<close> for a pattern without \<open>*\<close>: the name is \<open>dir/pattern\<close>
  followed by a random number; a name that exists is skipped, up to 10000 times.
\<close>

fun CreateTemp_try :: "nat \<Rightarrow> world \<Rightarrow> string \<Rightarrow> (error + string) \<times> world" where
  "CreateTemp_try 0 w prefix = (Inl (PathError ''createtemp'' (prefix @ ''*'') EEXIST), w)"
| "CreateTemp_try (Suc n) w prefix =
     (let name = prefix @ itoa (unat (rand w (rand_pos w)));
          w1 = w\<lparr>rand_pos := rand_pos w + 1\<rparr>
      in if fs w name \<noteq> None then CreateTemp_try n w1 prefix
         else
           (case io_fault w (SysCreate name) of
              Some e \<Rightarrow> (Inl (PathError ''open'' name e), w1)
            | None \<Rightarrow> (Inr name, w1\<lparr>fs := (fs w1)(name \<mapsto> File [] (clock w1))\<rparr>)))"

definition os_CreateTemp :: "world \<Rightarrow> string \<Rightarrow> string \<Rightarrow> (error + string) \<times> world" where
  "os_CreateTemp w dir pattern = CreateTemp_try (Suc 9999) w (dir @ ''/'' @ pattern)"

text \<open>
  A stream: the bytes it delivers, then end of input or an error. \<^verbatim>\<open>io.Copy(f, r)\<close>
  appends what \<open>r\<close> delivers to the file and returns the error of the write or of the
  stream; the stream is used up. A write that fails leaves the file as it was.
\<close>

datatype reader = Reader (rdata: "byte list") (rerr: "error option")

definition io_Copy :: "world \<Rightarrow> string \<Rightarrow> reader \<Rightarrow> error option \<times> reader \<times> world" where
  "io_Copy w f r =
     (case (if rdata r = [] then None else io_fault w (SysWrite f)) of
        Some e \<Rightarrow> (Some (PathError ''write'' f e), Reader [] (rerr r), w)
      | None \<Rightarrow>
          (rerr r, Reader [] (rerr r),
           w\<lparr>fs := (fs w)(f \<mapsto> File ((case fs w f of Some (File c _) \<Rightarrow> c | _ \<Rightarrow> []) @ rdata r) (clock w))\<rparr>))"

text \<open>
  \<^verbatim>\<open>os.Open\<close> for reading: the stream of the file's bytes. A directory opens, and
  reading it fails.
\<close>

definition os_Open :: "world \<Rightarrow> string \<Rightarrow> error + reader" where
  "os_Open w p =
     (if p = [] then Inl (PathError ''open'' p ENOENT)
      else
        (case io_fault w (SysOpen p) of
           Some e \<Rightarrow> Inl (PathError ''open'' p e)
         | None \<Rightarrow>
             (case follow (Suc 40) (fs w) p of
                Inl e \<Rightarrow> Inl (PathError ''open'' p e)
              | Inr q \<Rightarrow>
                  (case fs w q of
                     Some (File c t) \<Rightarrow> Inr (Reader c None)
                   | Some (Dir sz t) \<Rightarrow> Inr (Reader [] (Some (PathError ''read'' p EISDIR)))
                   | Some (Symlink _) \<Rightarrow> Inl (PathError ''open'' p ELOOP)
                   | None \<Rightarrow> Inl (PathError ''open'' p ENOENT)))))"

definition file_Close :: "world \<Rightarrow> string \<Rightarrow> error option" where
  "file_Close w f = (case io_fault w (SysClose f) of Some e \<Rightarrow> Some (PathError ''close'' f e) | None \<Rightarrow> None)"

definition os_Rename :: "world \<Rightarrow> string \<Rightarrow> string \<Rightarrow> error option \<times> world" where
  "os_Rename w old new =
     (case io_fault w (SysRename old new) of
        Some e \<Rightarrow> (Some (LinkError ''rename'' old new e), w)
      | None \<Rightarrow>
          (case fs w old of
             None \<Rightarrow> (Some (LinkError ''rename'' old new ENOENT), w)
           | Some nd \<Rightarrow>
               (case fs w new of
                  Some (Dir _ _) \<Rightarrow> (Some (LinkError ''rename'' old new EEXIST), w)
                | _ \<Rightarrow> (None, w\<lparr>fs := ((fs w)(new \<mapsto> nd))(old := if old = new then Some nd else None)\<rparr>))))"

text \<open>
  \<^verbatim>\<open>os.RemoveAll\<close>: a file or link is unlinked, a directory is removed with everything
  below it, a missing path is no error. Its result is discarded by the caller.
\<close>

definition os_RemoveAll :: "world \<Rightarrow> string \<Rightarrow> world" where
  "os_RemoveAll w p =
     (case fs w p of
        None \<Rightarrow> w
      | Some (Dir _ _) \<Rightarrow> w\<lparr>fs := (\<lambda>q. if q = p \<or> take (length p + 1) q = p @ ''/'' then None else fs w q)\<rparr>
      | Some _ \<Rightarrow> w\<lparr>fs := (fs w)(p := None)\<rparr>)"

section \<open>The disk store\<close>

definition actionDir :: string where "actionDir = ''action''"
definition outputDir :: string where "outputDir = ''output''"

record Disk =
  cacheDir :: string

text \<open>
  \<^verbatim>\<open>Disk.PutOutput\<close> (both snapshots of the storage file; the later one only adds a log
  line). The result is the triple the method returns, the stream as the call leaves it,
  and the world. The two deferred calls run on every return after the temporary file
  exists: \<^verbatim>\<open>f.Close()\<close>, which changes nothing here, then \<^verbatim>\<open>os.RemoveAll(f.Name())\<close>.
\<close>

definition Disk_PutOutput ::
  "Disk \<Rightarrow> world \<Rightarrow> string \<Rightarrow> reader \<Rightarrow> (string \<times> bool \<times> error option) \<times> reader \<times> world" where
  "Disk_PutOutput d w outputID r =
     (let outputPathname = filepath_Join [cacheDir d, outputDir, outputID] in
      if err_nil (os_Stat (fs w) outputPathname) then ((outputPathname, True, None), r, w)
      else
        (case os_CreateTemp w (cacheDir d) ''output'' of
           (Inl err, w1) \<Rightarrow>
             (('''', False, Some (Errorf ''creating temporary output file: '' err)), r, w1)
         | (Inr f, w1) \<Rightarrow>
             (case io_Copy w1 f r of
                (Some err, r', w2) \<Rightarrow>
                  (('''', False, Some (Errorf ''copying output to disk: '' err)), r', os_RemoveAll w2 f)
              | (None, r', w2) \<Rightarrow>
                  (case file_Close w2 f of
                     Some err \<Rightarrow>
                       (('''', False, Some (Errorf ''flushing output to disk: '' err)), r', os_RemoveAll w2 f)
                   | None \<Rightarrow>
                       (case os_Rename w2 f outputPathname of
                          (Some err, w3) \<Rightarrow>
                            (('''', False, Some (Errorf ''renaming: '' err)), r', os_RemoveAll w3 f)
                        | (None, w3) \<Rightarrow>
                            ((outputPathname, False, None), r', os_RemoveAll w3 f))))))"

definition Disk_GetOutput :: "Disk \<Rightarrow> string \<Rightarrow> string \<times> error option" where
  "Disk_GetOutput d outputID = (filepath_Join [cacheDir d, outputDir, outputID], None)"

definition Disk_OutputIDFromAction :: "Disk \<Rightarrow> world \<Rightarrow> string \<Rightarrow> string \<times> error option" where
  "Disk_OutputIDFromAction d w actionID =
     (let actionPathname = filepath_Join [cacheDir d, actionDir, actionID] in
      case os_Readlink (fs w) actionPathname of
        Inl err \<Rightarrow> if is_ErrNotExist err then ('''', None) else ('''', Some err)
      | Inr outputPathname \<Rightarrow> (filepath_Base outputPathname, None))"

text \<open>
  The storage file is present in two snapshots, lines 1--224 and lines 226--485 of the
  same source file. \<^verbatim>\<open>Disk.PutOutput\<close>, \<^verbatim>\<open>Disk.GetOutput\<close>, \<^verbatim>\<open>Disk.OutputIDFromAction\<close>,
  \<^verbatim>\<open>Bucket.PutOutput\<close>, \<^verbatim>\<open>Bucket.Start\<close> and \<^verbatim>\<open>Bucket.Close\<close> are the same in both (log lines
  apart). The functions that differ are embedded twice, suffix \<open>_1\<close> for the first
  snapshot and \<open>_2\<close> for the second: \<^verbatim>\<open>LinkActionToOutput\<close> (which returns only an error
  in the first and also reports an existing link in the second),
  \<^verbatim>\<open>Bucket.OutputIDFromAction\<close> (the second adds the error check and the marker file of a
  remote miss) and \<^verbatim>\<open>Bucket.GetOutput\<close> (a pipe in the first, a buffer in the second).
\<close>

definition Disk_LinkActionToOutput_1 :: "Disk \<Rightarrow> world \<Rightarrow> string \<Rightarrow> string \<Rightarrow> error option \<times> world" where
  "Disk_LinkActionToOutput_1 d w actionID outputID =
     (let actionPathname = filepath_Join [cacheDir d, actionDir, actionID];
          outputPathname = filepath_Join [''..'', outputDir, outputID]
      in case os_Symlink w outputPathname actionPathname of
           (Some err, w1) \<Rightarrow> if is_ErrExist err then (None, w1) else (Some err, w1)
         | (None, w1) \<Rightarrow> (None, w1))"

definition Disk_LinkActionToOutput_2 ::
  "Disk \<Rightarrow> world \<Rightarrow> string \<Rightarrow> string \<Rightarrow> (bool \<times> error option) \<times> world" where
  "Disk_LinkActionToOutput_2 d w actionID outputID =
     (let actionPathname = filepath_Join [cacheDir d, actionDir, actionID];
          outputPathname = filepath_Join [''..'', outputDir, outputID]
      in case os_Symlink w outputPathname actionPathname of
           (Some err, w1) \<Rightarrow> if is_ErrExist err then ((True, None), w1) else ((False, Some err), w1)
         | (None, w1) \<Rightarrow> ((False, None), w1))"

section \<open>The object store\<close>

text \<open>
  The three calls the program makes on \<^verbatim>\<open>*blob.Bucket\<close>. Each call is recorded in
  \<open>remote_log\<close>. A call fails when \<open>gc_fault\<close> says so; otherwise \<^verbatim>\<open>Attributes\<close> and
  \<^verbatim>\<open>Download\<close> fail with code \<open>NotFound\<close> for a key that holds no object. \<^verbatim>\<open>Download\<close>
  returns the bytes written to its sink and its error; \<^verbatim>\<open>Upload\<close> stores nothing when
  the stream it reads from fails.
\<close>

definition blob_Attributes :: "world \<Rightarrow> string \<Rightarrow> (error + (string \<Rightarrow> string option)) \<times> world" where
  "blob_Attributes w key =
     (let w1 = w\<lparr>remote_log := remote_log w @ [Attributes key]\<rparr> in
      case gc_fault w (Attributes key) of
        Some (c, msg) \<Rightarrow> (Inl (GcError c msg), w1)
      | None \<Rightarrow>
          (case objects w key of
             None \<Rightarrow> (Inl (GcError NotFound (''blob (key '' @ key @ '')'')), w1)
           | Some ob \<Rightarrow> (Inr (metadata ob), w1)))"

definition blob_Download :: "world \<Rightarrow> string \<Rightarrow> (byte list \<times> error option) \<times> world" where
  "blob_Download w key =
     (let w1 = w\<lparr>remote_log := remote_log w @ [Download key]\<rparr> in
      case gc_fault w (Download key) of
        Some (c, msg) \<Rightarrow> (([], Some (GcError c msg)), w1)
      | None \<Rightarrow>
          (case objects w key of
             None \<Rightarrow> (([], Some (GcError NotFound (''blob (key '' @ key @ '')''))), w1)
           | Some ob \<Rightarrow> ((body ob, None), w1)))"

definition blob_Upload ::
  "world \<Rightarrow> string \<Rightarrow> reader \<Rightarrow> (string \<Rightarrow> string option) \<Rightarrow> string \<Rightarrow> error option \<times> world" where
  "blob_Upload w key r md ctype =
     (let w1 = w\<lparr>remote_log := remote_log w @ [Upload key]\<rparr> in
      case gc_fault w (Upload key) of
        Some (c, msg) \<Rightarrow> (Some (GcError c msg), w1)
      | None \<Rightarrow>
          (case rerr r of
             Some e \<Rightarrow> (Some e, w1)
           | None \<Rightarrow>
               (None, w1\<lparr>objects := (objects w1)(key \<mapsto> \<lparr>body = rdata r, metadata = md, content_type = ctype\<rparr>)\<rparr>)))"

section \<open>The two-tier cache\<close>

text \<open>
  A call returns (\<open>Done\<close>, with its results and the world it leaves) or panics
  (\<open>Panicked\<close>, with the world at that moment: deferred calls still run, and the process
  then ends).
\<close>

datatype 'a outcome = Done 'a world | Panicked string world

record Bucket =
  disk :: Disk

definition Bucket_OutputIDFromAction_1 :: "Bucket \<Rightarrow> world \<Rightarrow> string \<Rightarrow> (string \<times> error option) outcome" where
  "Bucket_OutputIDFromAction_1 b w actionID =
     (case Disk_OutputIDFromAction (disk b) w actionID of
        (outputID, Some err) \<Rightarrow> Done ('''', Some (Errorf ''output id from action (disk): '' err)) w
      | (outputID, None) \<Rightarrow>
          if outputID \<noteq> '''' then Done (outputID, None) w
          else
            (case blob_Attributes w (path_Join [actionDir, actionID]) of
               (Inl err, w1) \<Rightarrow>
                 if gcerrors_Code (Some err) = NotFound then Done ('''', None) w1
                 else Panicked ''invalid memory address or nil pointer dereference'' w1
             | (Inr attr, w1) \<Rightarrow>
                 Done (case attr ''output_id'' of None \<Rightarrow> '''' | Some v \<Rightarrow> v, None) w1))"

definition Bucket_OutputIDFromAction_2 :: "Bucket \<Rightarrow> world \<Rightarrow> string \<Rightarrow> (string \<times> error option) outcome" where
  "Bucket_OutputIDFromAction_2 b w actionID =
     (case Disk_OutputIDFromAction (disk b) w actionID of
        (outputID, Some err) \<Rightarrow> Done ('''', Some (Errorf ''output id from action (disk): '' err)) w
      | (outputID, None) \<Rightarrow>
          if outputID \<noteq> '''' then Done (outputID, None) w
          else
            (let cacheEmptyOutputPath = filepath_Join [cacheDir (disk b), actionDir, actionID @ ''.empty''] in
             if err_nil (os_Stat (fs w) cacheEmptyOutputPath) then Done ('''', None) w
             else
               (case blob_Attributes w (path_Join [actionDir, actionID]) of
                  (Inl err, w1) \<Rightarrow>
                    if gcerrors_Code (Some err) = NotFound
                    then Done ('''', None) (os_WriteFile w1 cacheEmptyOutputPath [])
                    else Done ('''', Some (Errorf (''attribute for '' @ actionID @ '': '') err)) w1
                | (Inr attr, w1) \<Rightarrow>
                    (let outputID = (case attr ''output_id'' of None \<Rightarrow> '''' | Some v \<Rightarrow> v) in
                     if outputID = '''' then Done ('''', None) w1
                     else
                       (case Disk_LinkActionToOutput_2 (disk b) w1 actionID outputID of
                          (_, w2) \<Rightarrow> Done (outputID, None) w2)))))"

definition output_id_metadata :: "string \<Rightarrow> string \<Rightarrow> string option" where
  "output_id_metadata outputID = Map.empty(''output_id'' \<mapsto> outputID)"

definition Bucket_LinkActionToOutput_1 :: "Bucket \<Rightarrow> world \<Rightarrow> string \<Rightarrow> string \<Rightarrow> error option outcome" where
  "Bucket_LinkActionToOutput_1 b w actionID outputID =
     (case blob_Upload w (path_Join [actionDir, actionID]) (Reader [] None)
             (output_id_metadata outputID) ''plain/text'' of
        (Some err, w1) \<Rightarrow> Done (Some err) w1
      | (None, w1) \<Rightarrow>
          (case Disk_LinkActionToOutput_1 (disk b) w1 actionID outputID of
             (err, w2) \<Rightarrow> Done err w2))"

definition Bucket_LinkActionToOutput_2 ::
  "Bucket \<Rightarrow> world \<Rightarrow> string \<Rightarrow> string \<Rightarrow> (bool \<times> error option) outcome" where
  "Bucket_LinkActionToOutput_2 b w actionID outputID =
     (case Disk_LinkActionToOutput_2 (disk b) w actionID outputID of
        ((exists, err), w1) \<Rightarrow>
          if err \<noteq> None \<or> exists then Done (exists, err) w1
          else
            (case blob_Upload w1 (path_Join [actionDir, actionID]) (Reader [] None)
                    (output_id_metadata outputID) ''plain/text'' of
               (uerr, w2) \<Rightarrow> Done (False, uerr) w2))"

text \<open>
  \<^verbatim>\<open>Bucket.PutOutput\<close>. The send \<^verbatim>\<open>b.jobs <- pathname\<close> panics on a closed channel. On a
  full buffer (1000 paths) it waits until a worker has received one; the waiting is not
  represented, the path is appended.
\<close>

definition Bucket_PutOutput ::
  "Bucket \<Rightarrow> world \<Rightarrow> string \<Rightarrow> reader \<Rightarrow> ((string \<times> bool \<times> error option) \<times> reader) outcome" where
  "Bucket_PutOutput b w outputID r =
     (case Disk_PutOutput (disk b) w outputID r of
        ((pathname, exists, err), r', w1) \<Rightarrow>
          if err \<noteq> None then Done (('''', False, err), r') w1
          else if exists then Done ((pathname, True, None), r') w1
          else if jobs_closed w1 then Panicked ''send on closed channel'' w1
          else Done ((pathname, False, None), r') (w1\<lparr>jobs := jobs w1 @ [pathname]\<rparr>))"

text \<open>
  The body of a worker's loop in \<^verbatim>\<open>Bucket.Start\<close>, for one path received from the
  channel.
\<close>

definition upload_job :: "world \<Rightarrow> string \<Rightarrow> world" where
  "upload_job w pathname =
     (case os_Open w pathname of
        Inl err \<Rightarrow> w\<lparr>errlog := errlog w @ [(''opening file for upload'', pathname, err)]\<rparr>
      | Inr f \<Rightarrow>
          (case blob_Upload w (path_Join [outputDir, filepath_Base pathname]) f Map.empty
                  ''application/octet-stream'' of
             (Some err, w1) \<Rightarrow> w1\<lparr>errlog := errlog w1 @ [(''uploading file'', pathname, err)]\<rparr>
           | (None, w1) \<Rightarrow> w1))"

text \<open>
  \<^verbatim>\<open>Bucket.Close\<close>, seen from its caller when no other task runs: closing a closed
  channel panics; \<^verbatim>\<open>b.wg.Wait()\<close> returns when every worker has left its loop, that is
  when the paths still in the channel have been received and handled.
\<close>

definition Bucket_Close :: "world \<Rightarrow> unit outcome" where
  "Bucket_Close w =
     (if jobs_closed w then Panicked ''close of closed channel'' w
      else Done () (fold (\<lambda>pathname w'. upload_job w' pathname) (jobs w) (w\<lparr>jobs := [], jobs_closed := True\<rparr>)))"

definition Bucket_GetOutput_1 :: "Bucket \<Rightarrow> world \<Rightarrow> string \<Rightarrow> (string \<times> error option) outcome" where
  "Bucket_GetOutput_1 b w outputID =
     (case Disk_GetOutput (disk b) outputID of
        (pathname, Some err) \<Rightarrow> Done ('''', Some err) w
      | (pathname, None) \<Rightarrow>
          if err_nil (os_Stat (fs w) pathname) then Done (pathname, None) w
          else
            (case blob_Download w (path_Join [outputDir, outputID]) of
               ((data, derr), w1) \<Rightarrow>
                 (case Disk_PutOutput (disk b) w1 outputID (Reader data derr) of
                    ((pathname, _, err), _, w2) \<Rightarrow>
                      if gcerrors_Code err = NotFound then Done ('''', None) w2
                      else Done (pathname, err) w2)))"

definition Bucket_GetOutput_2 :: "Bucket \<Rightarrow> world \<Rightarrow> string \<Rightarrow> (string \<times> error option) outcome" where
  "Bucket_GetOutput_2 b w outputID =
     (case Disk_GetOutput (disk b) outputID of
        (pathname, Some err) \<Rightarrow> Done ('''', Some err) w
      | (pathname, None) \<Rightarrow>
          if err_nil (os_Stat (fs w) pathname) then Done (pathname, None) w
          else
            (case blob_Download w (path_Join [outputDir, outputID]) of
               ((buf, err), w1) \<Rightarrow>
                 if gcerrors_Code err = NotFound then Done ('''', None) w1
                 else if err \<noteq> None then Done ('''', err) w1
                 else
                   (case Disk_PutOutput (disk b) w1 outputID (Reader buf None) of
                      ((pathname, _, err), _, w2) \<Rightarrow> Done (pathname, err) w2)))"

section \<open>The request coordinator\<close>

text \<open>
  The four methods of the interface \<^verbatim>\<open>Storage\<close>, as the cacher calls them on its bucket.
  The first snapshot of \<^verbatim>\<open>Bucket\<close> has them with the types the interface declares, and
  \<^verbatim>\<open>main.go\<close> is written against it: line 97 returns the one result of
  \<^verbatim>\<open>LinkActionToOutput\<close>. In the second snapshot that method has two results, which
  line 97 cannot return; \<^verbatim>\<open>Cacher.Get\<close> does not call it.
\<close>

record Storage =
  PutOutput :: "world \<Rightarrow> string \<Rightarrow> reader \<Rightarrow> ((string \<times> bool \<times> error option) \<times> reader) outcome"
  GetOutput :: "world \<Rightarrow> string \<Rightarrow> (string \<times> error option) outcome"
  OutputIDFromAction :: "world \<Rightarrow> string \<Rightarrow> (string \<times> error option) outcome"
  LinkActionToOutput :: "world \<Rightarrow> string \<Rightarrow> string \<Rightarrow> error option outcome"

definition Bucket_Storage_1 :: "Bucket \<Rightarrow> Storage" where
  "Bucket_Storage_1 b =
     \<lparr>PutOutput = Bucket_PutOutput b,
      GetOutput = Bucket_GetOutput_1 b,
      OutputIDFromAction = Bucket_OutputIDFromAction_1 b,
      LinkActionToOutput = Bucket_LinkActionToOutput_1 b\<rparr>"

type_synonym cmd = string

definition cmdGet :: cmd where "cmdGet = ''get''"
definition cmdPut :: cmd where "cmdPut = ''put''"
definition cmdClose :: cmd where "cmdClose = ''close''"

text \<open>
  \<open>req_ObjectID\<close> is \<open>None\<close> for a nil slice. \<open>req_Body\<close> is not part of the JSON record;
  \<^verbatim>\<open>run\<close> sets it for a put.
\<close>

record request =
  req_ID :: "64 word"
  req_Command :: cmd
  req_ActionID :: "byte list"
  req_ObjectID :: "byte list option"
  req_OutputID :: "byte list"
  req_Body :: reader
  req_BodySize :: "64 word"

record response =
  resp_ID :: "64 word"
  resp_Err :: string
  resp_KnownCommands :: "cmd list"
  resp_Miss :: bool
  resp_OutputID :: "byte list"
  resp_Size :: "64 word"
  resp_TimeNanos :: "64 word"
  resp_DiskPath :: string

record Cacher =
  bucket :: Storage

text \<open>
  \<^verbatim>\<open>c.flight.Do(key, fn)\<close> runs \<open>fn\<close> and returns its results when no call with the same
  key is in flight, which is the case when requests are handled one after the other.
\<close>

definition flight_Do :: "string \<Rightarrow> 'a outcome \<Rightarrow> 'a outcome" where
  "flight_Do key fn = fn"

definition Cacher_Get :: "Cacher \<Rightarrow> world \<Rightarrow> request \<Rightarrow> (string \<times> error option) outcome" where
  "Cacher_Get c w req =
     (let actionID = hex_EncodeToString (req_ActionID req) in
      case OutputIDFromAction (bucket c) w actionID of
        Panicked msg w1 \<Rightarrow> Panicked msg w1
      | Done (outputID, Some err) w1 \<Rightarrow>
          Done ('''', Some (Errorf ''getting output id from action (bucket): '' err)) w1
      | Done (outputID, None) w1 \<Rightarrow>
          flight_Do (''get'' @ outputID) (GetOutput (bucket c) w1 outputID))"

definition Cacher_Put :: "Cacher \<Rightarrow> world \<Rightarrow> request \<Rightarrow> (string \<times> error option) outcome" where
  "Cacher_Put c w req =
     (let actionID = hex_EncodeToString (req_ActionID req);
          outputID = hex_EncodeToString (req_OutputID req)
      in case flight_Do (''put'' @ outputID) (PutOutput (bucket c) w outputID (req_Body req)) of
           Panicked msg w1 \<Rightarrow> Panicked msg w1
         | Done ((pathname, _, Some err), _) w1 \<Rightarrow> Done ('''', Some err) w1
         | Done ((pathname, _, None), _) w1 \<Rightarrow>
             (case LinkActionToOutput (bucket c) w1 actionID outputID of
                Panicked msg w2 \<Rightarrow> Panicked msg w2
              | Done err w2 \<Rightarrow> Done (pathname, err) w2))"

section \<open>The protocol engine\<close>

text \<open>
  The deferred function of a request's task. For every command but \<^verbatim>\<open>close\<close> it inspects
  \<^verbatim>\<open>resp.DiskPath\<close> on disk; the result is the response that is encoded and written.
\<close>

definition deferred_response :: "request \<Rightarrow> world \<Rightarrow> response \<Rightarrow> response" where
  "deferred_response req w resp =
     (if req_Command req \<noteq> cmdClose then
        (case os_Stat (fs w) (resp_DiskPath resp) of
           Inl err \<Rightarrow> resp\<lparr>resp_Err := err_Error err\<rparr>
         | Inr fi \<Rightarrow>
             (case hex_DecodeString (filepath_Base (resp_DiskPath resp)) of
                (bs, herr) \<Rightarrow>
                  resp\<lparr>resp_OutputID := bs,
                       resp_Err := (if herr \<noteq> None then ''invalid output id'' else resp_Err resp),
                       resp_Size := fi_Size fi,
                       resp_TimeNanos := fi_ModTime fi\<rparr>))
      else resp)"

definition response_for :: "request \<Rightarrow> response" where
  "response_for req =
     \<lparr>resp_ID = req_ID req, resp_Err = '''', resp_KnownCommands = [], resp_Miss = False,
      resp_OutputID = [], resp_Size = 0, resp_TimeNanos = 0, resp_DiskPath = ''''\<rparr>"

text \<open>
  The task started for one request (\<^verbatim>\<open>go func() { ... }()\<close>), run to its end: the
  response it writes, the world it leaves, and the message of the panic it dies of, if
  any. The deferred function runs, and writes the response as it stands, also when the
  task panics.
\<close>

definition handle :: "Cacher \<Rightarrow> request \<Rightarrow> world \<Rightarrow> response \<times> world \<times> string option" where
  "handle c req w =
     (let resp = response_for req in
      if req_Command req = cmdClose then
        (case Bucket_Close w of
           Done _ w1 \<Rightarrow> (deferred_response req w1 resp, w1, None)
         | Panicked msg w1 \<Rightarrow> (deferred_response req w1 resp, w1, Some msg))
      else if req_Command req = cmdGet then
        (case Cacher_Get c w req of
           Done (pathname, err) w1 \<Rightarrow>
             (let resp1 = resp\<lparr>resp_DiskPath := pathname\<rparr>;
                  resp2 = (case err of None \<Rightarrow> resp1 | Some e \<Rightarrow> resp1\<lparr>resp_Err := err_Error e\<rparr>);
                  resp3 = (if resp_DiskPath resp2 = '''' then resp2\<lparr>resp_Miss := True\<rparr> else resp2)
              in (deferred_response req w1 resp3, w1, None))
         | Panicked msg w1 \<Rightarrow> (deferred_response req w1 resp, w1, Some msg))
      else if req_Command req = cmdPut then
        (case Cacher_Put c w req of
           Done (pathname, err) w1 \<Rightarrow>
             (let resp1 = resp\<lparr>resp_DiskPath := pathname\<rparr>;
                  resp2 = (case err of None \<Rightarrow> resp1 | Some e \<Rightarrow> resp1\<lparr>resp_Err := err_Error e\<rparr>)
              in (deferred_response req w1 resp2, w1, None))
         | Panicked msg w1 \<Rightarrow> (deferred_response req w1 resp, w1, Some msg))
      else (deferred_response req w resp, w, None))"

text \<open>
  Standard input as the sequence of JSON values the decoder finds: an object that
  decodes into a request, a string that decodes into a byte slice, \<^verbatim>\<open>null\<close> (which decodes
  into anything and leaves it at its zero value), or any other text (which decodes into
  neither). The end of the list is the end of input.
\<close>

datatype item = JObject request | JBytes "byte list" | JNull | JOther

definition zero_request :: request where
  "zero_request =
     \<lparr>req_ID = 0, req_Command = '''', req_ActionID = [], req_ObjectID = None, req_OutputID = [],
      req_Body = Reader [] None, req_BodySize = 0\<rparr>"

definition decode_request :: "item \<Rightarrow> error + request" where
  "decode_request it =
     (case it of
        JObject r \<Rightarrow> Inr (r\<lparr>req_Body := Reader [] None\<rparr>)
      | JNull \<Rightarrow> Inr zero_request
      | JBytes _ \<Rightarrow> Inl (ErrorString ''json: cannot unmarshal string into Go value of type main.request'')
      | JOther \<Rightarrow> Inl (ErrorString ''json: cannot unmarshal into Go value of type main.request''))"

definition decode_bytes :: "item \<Rightarrow> error + byte list" where
  "decode_bytes it =
     (case it of
        JBytes b \<Rightarrow> Inr b
      | JNull \<Rightarrow> Inr []
      | JObject _ \<Rightarrow> Inl (ErrorString ''json: cannot unmarshal object into Go value of type []uint8'')
      | JOther \<Rightarrow> Inl (ErrorString ''json: cannot unmarshal into Go value of type []uint8''))"

text \<open>
  How \<^verbatim>\<open>run\<close> ends: it returns (nil or an error), or the process dies of a task's panic.
\<close>

datatype ending = Returned "error option" | Crashed string

text \<open>
  The loop of \<^verbatim>\<open>run\<close> on the rest of the input, with the tasks run one after the other
  in the order of their requests, each to its end before the next value is decoded. The
  result lists the requests for which a task was started, each with the response its
  task wrote.
\<close>

fun run_loop :: "Cacher \<Rightarrow> item list \<Rightarrow> world \<Rightarrow> (request \<times> response) list \<times> world \<times> ending" where
  "run_loop c [] w = ([], w, Returned None)"
| "run_loop c (it # rest) w =
     (case decode_request it of
        Inl err \<Rightarrow> ([], w, Returned (Some err))
      | Inr req0 \<Rightarrow>
          (let req = (case req_ObjectID req0 of None \<Rightarrow> req0 | Some oid \<Rightarrow> req0\<lparr>req_OutputID := oid\<rparr>) in
           if req_Command req = cmdPut then
             (if 0 < sint (req_BodySize req) then
                (case rest of
                   [] \<Rightarrow> ([], w, Returned (Some (Errorf ''decoding body: '' (ErrorString ''EOF''))))
                 | payload # rest' \<Rightarrow>
                     (case decode_bytes payload of
                        Inl err \<Rightarrow> ([], w, Returned (Some (Errorf ''decoding body: '' err)))
                      | Inr buf \<Rightarrow>
                          if word_of_nat (length buf) \<noteq> req_BodySize req then
                            ([], w, Returned (Some (ErrorString
                               (''incorrect length: '' @ itoa (length buf) @ '' != '' @
                                itoa (unat (req_BodySize req))))))
                          else
                            (let req1 = req\<lparr>req_Body := Reader buf None\<rparr> in
                             case handle c req1 w of
                               (resp, w1, Some msg) \<Rightarrow> ([(req1, resp)], w1, Crashed msg)
                             | (resp, w1, None) \<Rightarrow>
                                 (case run_loop c rest' w1 of
                                    (trace, w2, e) \<Rightarrow> ((req1, resp) # trace, w2, e)))))
              else
                (let req1 = req\<lparr>req_Body := Reader [] None\<rparr> in
                 case handle c req1 w of
                   (resp, w1, Some msg) \<Rightarrow> ([(req1, resp)], w1, Crashed msg)
                 | (resp, w1, None) \<Rightarrow>
                     (case run_loop c rest w1 of
                        (trace, w2, e) \<Rightarrow> ((req1, resp) # trace, w2, e))))
           else
             (case handle c req w of
                (resp, w1, Some msg) \<Rightarrow> ([(req, resp)], w1, Crashed msg)
              | (resp, w1, None) \<Rightarrow>
                  (case run_loop c rest w1 of
                     (trace, w2, e) \<Rightarrow> ((req, resp) # trace, w2, e)))))"

text \<open>
  \<^verbatim>\<open>run\<close> from the handshake on (line 125); the set-up before it, which opens the bucket
  and creates the two directories, is part of the world the session starts in. The
  result is the output stream (the handshake, then the responses in the order written),
  the requests handled, the final world and the way the session ended.
\<close>

definition handshake :: "bool \<Rightarrow> response" where
  "handshake readonly =
     \<lparr>resp_ID = 0, resp_Err = '''',
      resp_KnownCommands = (if \<not> readonly then [cmdClose, cmdGet] @ [cmdPut] else [cmdClose, cmdGet]),
      resp_Miss = False, resp_OutputID = [], resp_Size = 0, resp_TimeNanos = 0, resp_DiskPath = ''''\<rparr>"

definition run :: "Cacher \<Rightarrow> bool \<Rightarrow> item list \<Rightarrow> world \<Rightarrow> response list \<times> request list \<times> world \<times> ending" where
  "run c readonly input w =
     (case run_loop c input w of
        (trace, w', e) \<Rightarrow> (handshake readonly # map snd trace, map fst trace, w', e))"

section \<open>Example worlds\<close>

text \<open>
  A cache directory with its two subdirectories and nothing else, an empty object store,
  an open and empty upload queue, no failures.
\<close>

definition cache0 :: Disk where
  "cache0 = \<lparr>cacheDir = ''/cache''\<rparr>"

definition world0 :: world where
  "world0 =
     \<lparr>fs = Map.empty(''/cache'' \<mapsto> Dir 4096 0, ''/cache/action'' \<mapsto> Dir 4096 0,
                     ''/cache/output'' \<mapsto> Dir 4096 0),
      clock = 1, io_fault = (\<lambda>_. None), rand = (\<lambda>_. 7), rand_pos = 0,
      objects = Map.empty, gc_fault = (\<lambda>_. None), remote_log = [],
      jobs = [], jobs_closed = False, errlog = []\<rparr>"

definition rename_fails :: "syscall \<Rightarrow> errno option" where
  "rename_fails c = (case c of SysRename _ _ \<Rightarrow> Some EIO | _ \<Rightarrow> None)"

section \<open>Evaluation on numerals\<close>

lemma follow_numeral:
  "follow (numeral k) f p =
     (case f p of Some (Symlink t) \<Rightarrow> follow (pred_numeral k) f (resolve_link p t) | _ \<Rightarrow> Inr p)"
  by (simp add: numeral_eq_Suc)

lemma CreateTemp_try_numeral:
  "CreateTemp_try (numeral k) w prefix =
     (let name = prefix @ itoa (unat (rand w (rand_pos w)));
          w1 = w\<lparr>rand_pos := rand_pos w + 1\<rparr>
      in if fs w name \<noteq> None then CreateTemp_try (pred_numeral k) w1 prefix
         else
           (case io_fault w (SysCreate name) of
              Some e \<Rightarrow> (Inl (PathError ''open'' name e), w1)
            | None \<Rightarrow> (Inr name, w1\<lparr>fs := (fs w1)(name \<mapsto> File [] (clock w1))\<rparr>)))"
  by (simp add: numeral_eq_Suc)

lemma itoa_7: "itoa 7 = ''7''"
  by (simp add: itoa.simps decdigit_def)

lemmas eval_path = filepath_Join_def path_Join_def path_Clean_def filepath_Base_def
  outputDir_def actionDir_def Let_def

lemmas eval_os = os_Stat_def err_nil_def follow_numeral os_CreateTemp_def CreateTemp_try_numeral
  io_Copy_def file_Close_def os_Rename_def os_RemoveAll_def os_Readlink_def os_Symlink_def
  os_WriteFile_def os_Open_def itoa_7

section \<open>The system calls\<close>

lemma os_Stat_absent: "f p = None \<Longrightarrow> \<not> err_nil (os_Stat f p)"
  by (simp add: os_Stat_def err_nil_def follow_numeral)

lemma os_Stat_file: "f p = Some (File c t) \<Longrightarrow> p \<noteq> [] \<Longrightarrow> err_nil (os_Stat f p)"
  by (simp add: os_Stat_def err_nil_def follow_numeral)

lemma CreateTemp_try_Inl:
  "CreateTemp_try n w prefix = (Inl e, w1) \<Longrightarrow> w1 = w\<lparr>rand_pos := rand_pos w1\<rparr>"
proof (induction n arbitrary: w)
  case 0
  then show ?case by auto
next
  case (Suc n)
  show ?case
  proof (cases "fs w (prefix @ itoa (unat (rand w (rand_pos w)))) = None")
    case True
    with Suc.prems show ?thesis by (auto simp: Let_def split: option.splits)
  next
    case False
    with Suc.prems have "CreateTemp_try n (w\<lparr>rand_pos := rand_pos w + 1\<rparr>) prefix = (Inl e, w1)"
      by (auto simp: Let_def)
    from Suc.IH[OF this] show ?thesis by simp
  qed
qed

lemma CreateTemp_try_Inr:
  "CreateTemp_try n w prefix = (Inr f, w1) \<Longrightarrow>
     fs w f = None \<and> w1 = w\<lparr>fs := (fs w)(f \<mapsto> File [] (clock w)), rand_pos := rand_pos w1\<rparr>
     \<and> (\<exists>k. f = prefix @ itoa k)"
proof (induction n arbitrary: w)
  case 0
  then show ?case by simp
next
  case (Suc n)
  show ?case
  proof (cases "fs w (prefix @ itoa (unat (rand w (rand_pos w)))) = None")
    case True
    with Suc.prems have f: "f = prefix @ itoa (unat (rand w (rand_pos w)))"
      and w1: "w1 = w\<lparr>rand_pos := rand_pos w + 1, fs := (fs w)(f \<mapsto> File [] (clock w))\<rparr>"
      by (auto simp: Let_def split: option.splits)
    have "\<exists>k. f = prefix @ itoa k" using f by blast
    moreover have "fs w f = None" using True f by simp
    moreover have "w1 = w\<lparr>fs := (fs w)(f \<mapsto> File [] (clock w)), rand_pos := rand_pos w1\<rparr>"
      by (subst (1 2) w1) simp
    ultimately show ?thesis by blast
  next
    case False
    with Suc.prems have "CreateTemp_try n (w\<lparr>rand_pos := rand_pos w + 1\<rparr>) prefix = (Inr f, w1)"
      by (auto simp: Let_def)
    from Suc.IH[OF this] show ?thesis by simp
  qed
qed

lemma os_CreateTemp_Inl:
  "os_CreateTemp w dir pat = (Inl e, w1) \<Longrightarrow> w1 = w\<lparr>rand_pos := rand_pos w1\<rparr>"
  unfolding os_CreateTemp_def by (rule CreateTemp_try_Inl)

lemma os_CreateTemp_Inr:
  "os_CreateTemp w dir pat = (Inr f, w1) \<Longrightarrow>
     fs w f = None \<and> w1 = w\<lparr>fs := (fs w)(f \<mapsto> File [] (clock w)), rand_pos := rand_pos w1\<rparr>
     \<and> (\<exists>k. f = dir @ ''/'' @ pat @ itoa k)"
  unfolding os_CreateTemp_def using CreateTemp_try_Inr[of "Suc 9999" w "dir @ ''/'' @ pat" f w1] by simp

section \<open>Atomicity of the disk store's write\<close>

text \<open>
  The three ways \<^verbatim>\<open>Disk.PutOutput\<close> returns: with an error, and the file system as it
  was; with the blob found in place, and nothing touched; with the stream's bytes under
  the output path and the temporary file gone. Only the file system and the position in
  the random stream change.
\<close>

lemma Disk_PutOutput_cases:
  assumes "Disk_PutOutput d w outputID r = ((p, ex, err), r', w')"
  shows "w' = w\<lparr>fs := fs w', rand_pos := rand_pos w'\<rparr> \<and>
    ((err \<noteq> None \<and> fs w' = fs w \<and> p = [] \<and> \<not> ex
        \<and> \<not> err_nil (os_Stat (fs w) (fst (Disk_GetOutput d outputID))))
     \<or> (err = None \<and> ex \<and> w' = w \<and> r' = r \<and> p = fst (Disk_GetOutput d outputID)
        \<and> err_nil (os_Stat (fs w) (fst (Disk_GetOutput d outputID))))
     \<or> (err = None \<and> \<not> ex \<and> p = fst (Disk_GetOutput d outputID)
        \<and> \<not> err_nil (os_Stat (fs w) (fst (Disk_GetOutput d outputID)))
        \<and> (\<exists>k. fs w (cacheDir d @ ''/output'' @ itoa k) = None \<and>
                fs w' = ((fs w)(fst (Disk_GetOutput d outputID) \<mapsto> File (rdata r) (clock w)))
                          (cacheDir d @ ''/output'' @ itoa k := None))))"
proof -
  define t where "t = fst (Disk_GetOutput d outputID)"
  have t: "filepath_Join [cacheDir d, outputDir, outputID] = t"
    by (simp add: t_def Disk_GetOutput_def)
  have t': "fst (Disk_GetOutput d outputID) = t"
    by (simp add: t_def)
  show ?thesis
  proof (cases "err_nil (os_Stat (fs w) t)")
    case True
    with assms show ?thesis by (auto simp: Disk_PutOutput_def t t' Let_def)
  next
    case False
    obtain x w1 where ct: "os_CreateTemp w (cacheDir d) ''output'' = (x, w1)"
      by (cases "os_CreateTemp w (cacheDir d) ''output''")
    show ?thesis
    proof (cases x)
      case (Inl e)
      from os_CreateTemp_Inl[OF ct[unfolded Inl]] have w1: "w1 = w\<lparr>rand_pos := rand_pos w1\<rparr>" .
      have fs1: "fs w1 = fs w" by (subst w1) simp
      from assms False ct Inl have "w' = w1" "err \<noteq> None" "p = []" "\<not> ex"
        by (auto simp: Disk_PutOutput_def t Let_def)
      moreover have "w1 = w\<lparr>fs := fs w1, rand_pos := rand_pos w1\<rparr>"
        by (subst (1) w1) (simp add: fs1)
      ultimately show ?thesis using False fs1 by (simp add: t')
    next
      case (Inr f)
      from os_CreateTemp_Inr[OF ct[unfolded Inr]] obtain k where fN: "fs w f = None"
        and w1: "w1 = w\<lparr>fs := (fs w)(f \<mapsto> File [] (clock w)), rand_pos := rand_pos w1\<rparr>"
        and f: "f = cacheDir d @ ''/'' @ ''output'' @ itoa k" by blast
      define K where "K = rand_pos w1"
      have w1': "w1 = w\<lparr>fs := (fs w)(f \<mapsto> File [] (clock w)), rand_pos := K\<rparr>"
        unfolding K_def by (rule w1)
      have k: "fs w (cacheDir d @ ''/output'' @ itoa k) = None" using fN f by simp
      have rmf: "\<And>x. ((fs w)(f \<mapsto> x))(f := None) = fs w"
        "\<And>x y. ((fs w)(f \<mapsto> x, f \<mapsto> y))(f := None) = fs w"
        using fN by auto
      from assms False ct Inr have "(case io_Copy w1 f r of
         (None, r', w2) \<Rightarrow>
           (case file_Close w2 f of
           None \<Rightarrow>
             (case os_Rename w2 f t of
             (None, w3) \<Rightarrow> ((t, False, None), r', os_RemoveAll w3 f)
             | (Some err, w3) \<Rightarrow>
                 (([], False, Some (Errorf ''renaming: '' err)), r', os_RemoveAll w3 f))
           | Some err \<Rightarrow>
               (([], False, Some (Errorf ''flushing output to disk: '' err)), r', os_RemoveAll w2 f))
         | (Some err, r', w2) \<Rightarrow>
             (([], False, Some (Errorf ''copying output to disk: '' err)), r', os_RemoveAll w2 f)) =
        ((p, ex, err), r', w')"
        by (simp add: Disk_PutOutput_def t Let_def)
      then have "w' = w\<lparr>fs := fs w', rand_pos := rand_pos w'\<rparr> \<and>
          ((err \<noteq> None \<and> fs w' = fs w \<and> p = [] \<and> \<not> ex) \<or>
           (err = None \<and> \<not> ex \<and> p = t \<and>
             fs w' = ((fs w)(t \<mapsto> File (rdata r) (clock w)))(f := None)))"
        unfolding w1'
        by (auto simp: io_Copy_def file_Close_def os_Rename_def os_RemoveAll_def rmf fN
              split: if_splits option.splits node.splits)
      with False k f show ?thesis by (auto simp: t')
    qed
  qed
qed

text \<open>
  C5. Whenever \<^verbatim>\<open>Disk.PutOutput\<close> returns an error (the temporary file could not be
  created, the stream or the write failed during the copy, the close failed or the rename
  failed), it returns the empty path and the file system is exactly as before the call,
  so nothing exists under the output path. On every return of a call that did not find
  the blob in place, the output path either does not exist or holds all the bytes of the
  stream; and on every return, no path other than the output path exists that did not
  exist before: the temporary file is gone.
\<close>

theorem Disk_PutOutput_leaves_no_partial_file:
  assumes "Disk_PutOutput d w outputID r = ((p, ex, err), r', w')"
  shows "(err \<noteq> None \<longrightarrow>
            p = '''' \<and> fs w' = fs w \<and> \<not> err_nil (os_Stat (fs w') (fst (Disk_GetOutput d outputID))))
       \<and> (\<not> ex \<longrightarrow>
            \<not> err_nil (os_Stat (fs w') (fst (Disk_GetOutput d outputID)))
            \<or> fs w' (fst (Disk_GetOutput d outputID)) = Some (File (rdata r) (clock w)))
       \<and> (\<forall>q. q \<noteq> fst (Disk_GetOutput d outputID) \<longrightarrow> fs w' q \<noteq> None \<longrightarrow> fs w q \<noteq> None)"
proof -
  let ?t = "fst (Disk_GetOutput d outputID)"
  from Disk_PutOutput_cases[OF assms]
  consider (failed) "err \<noteq> None" "fs w' = fs w" "p = []" "\<not> ex" "\<not> err_nil (os_Stat (fs w) ?t)"
    | (found) "err = None" "ex" "w' = w"
    | (written) k where "err = None" "\<not> ex"
        "fs w' = ((fs w)(?t \<mapsto> File (rdata r) (clock w)))(cacheDir d @ ''/output'' @ itoa k := None)"
        "fs w (cacheDir d @ ''/output'' @ itoa k) = None"
    by blast
  then show ?thesis
  proof cases
    case failed
    then show ?thesis by simp
  next
    case found
    then show ?thesis by simp
  next
    case written
    show ?thesis
    proof (cases "cacheDir d @ ''/output'' @ itoa k = ?t")
      case True
      with written have "fs w' ?t = None" by simp
      with os_Stat_absent[of "fs w'" ?t] written show ?thesis by auto
    next
      case False
      with written show ?thesis by auto
    qed
  qed
qed

theorem Disk_PutOutput_leaves_no_partial_file_witness:
  "snd (snd (fst (Disk_PutOutput cache0 (world0\<lparr>io_fault := rename_fails\<rparr>) ''ab'' (Reader [1, 2, 3] None))))
     = Some (Errorf ''renaming: '' (LinkError ''rename'' ''/cache/output7'' ''/cache/output/ab'' EIO))
   \<and> fs (snd (snd (Disk_PutOutput cache0 (world0\<lparr>io_fault := rename_fails\<rparr>) ''ab'' (Reader [1, 2, 3] None))))
     = fs (world0\<lparr>io_fault := rename_fails\<rparr>)"
proof -
  let ?w = "world0\<lparr>io_fault := rename_fails\<rparr>"
  let ?call = "Disk_PutOutput cache0 ?w ''ab'' (Reader [1, 2, 3] None)"
  have ev: "fst ?call =
      ('''', False, Some (Errorf ''renaming: '' (LinkError ''rename'' ''/cache/output7'' ''/cache/output/ab'' EIO)))"
    by (simp add: Disk_PutOutput_def cache0_def world0_def rename_fails_def eval_path eval_os)
  obtain r' w' where call: "?call =
      (('''', False, Some (Errorf ''renaming: '' (LinkError ''rename'' ''/cache/output7'' ''/cache/output/ab'' EIO))), r', w')"
    using ev by (cases ?call) auto
  from Disk_PutOutput_leaves_no_partial_file[OF call] have "fs w' = fs ?w" by simp
  with call show ?thesis by simp
qed

text \<open>
  Each of the four steps can be the one that fails, and each time the call returns its
  error and the file system it started from.
\<close>

definition create_fails :: "syscall \<Rightarrow> errno option" where
  "create_fails c = (case c of SysCreate _ \<Rightarrow> Some ENOSPC | _ \<Rightarrow> None)"

definition write_fails :: "syscall \<Rightarrow> errno option" where
  "write_fails c = (case c of SysWrite _ \<Rightarrow> Some ENOSPC | _ \<Rightarrow> None)"

definition close_fails :: "syscall \<Rightarrow> errno option" where
  "close_fails c = (case c of SysClose _ \<Rightarrow> Some EIO | _ \<Rightarrow> None)"

lemma Disk_PutOutput_create_fails:
  "Disk_PutOutput cache0 (world0\<lparr>io_fault := create_fails\<rparr>) ''ab'' (Reader [1, 2, 3] None) =
     (('''', False, Some (Errorf ''creating temporary output file: '' (PathError ''open'' ''/cache/output7'' ENOSPC))),
      Reader [1, 2, 3] None, world0\<lparr>io_fault := create_fails, rand_pos := 1\<rparr>)"
  by (simp add: Disk_PutOutput_def cache0_def world0_def create_fails_def eval_path eval_os)

lemma Disk_PutOutput_copy_fails:
  "Disk_PutOutput cache0 (world0\<lparr>io_fault := write_fails\<rparr>) ''ab'' (Reader [1, 2, 3] None) =
     (('''', False, Some (Errorf ''copying output to disk: '' (PathError ''write'' ''/cache/output7'' ENOSPC))),
      Reader [] None, world0\<lparr>io_fault := write_fails, rand_pos := 1\<rparr>)"
  by (simp add: Disk_PutOutput_def cache0_def world0_def write_fails_def eval_path eval_os fun_upd_twist)

lemma Disk_PutOutput_stream_fails:
  "Disk_PutOutput cache0 world0 ''ab'' (Reader [1, 2] (Some (ErrorString ''unexpected EOF''))) =
     (('''', False, Some (Errorf ''copying output to disk: '' (ErrorString ''unexpected EOF''))),
      Reader [] (Some (ErrorString ''unexpected EOF'')), world0\<lparr>rand_pos := 1\<rparr>)"
  by (simp add: Disk_PutOutput_def cache0_def world0_def eval_path eval_os fun_upd_twist)

lemma Disk_PutOutput_close_fails:
  "Disk_PutOutput cache0 (world0\<lparr>io_fault := close_fails\<rparr>) ''ab'' (Reader [1, 2, 3] None) =
     (('''', False, Some (Errorf ''flushing output to disk: '' (PathError ''close'' ''/cache/output7'' EIO))),
      Reader [] None, world0\<lparr>io_fault := close_fails, rand_pos := 1\<rparr>)"
  by (simp add: Disk_PutOutput_def cache0_def world0_def close_fails_def eval_path eval_os fun_upd_twist)

text \<open>Without a failure the blob is in place and the temporary file is gone.\<close>

lemma Disk_PutOutput_success:
  "(case Disk_PutOutput cache0 world0 ''ab'' (Reader [1, 2, 3] None) of
      (res, r', w') \<Rightarrow>
        res = (''/cache/output/ab'', False, None)
        \<and> fs w' ''/cache/output/ab'' = Some (File [1, 2, 3] 1)
        \<and> fs w' ''/cache/output7'' = None)"
  by (simp add: Disk_PutOutput_def cache0_def world0_def eval_path eval_os)

section \<open>Facts about paths\<close>

text \<open>
  A plain element is a file name: not empty, not \<open>.\<close> or \<open>..\<close>, without a separator. The
  last element of a joined path whose last argument is plain is that argument.
\<close>

definition plain_elem :: "string \<Rightarrow> bool" where
  "plain_elem y = (y \<noteq> [] \<and> y \<noteq> ''.'' \<and> y \<noteq> ''..'' \<and> CHR ''/'' \<notin> set y)"

lemma split_sep_nonempty: "split_sep s \<noteq> []"
  by (induction s) (auto split: list.splits)

lemma split_sep_append_sep: "split_sep (a @ CHR ''/'' # b) = split_sep a @ split_sep b"
proof (induction a)
  case Nil
  show ?case by simp
next
  case (Cons c a)
  obtain x xs where x: "split_sep a = x # xs"
    using split_sep_nonempty[of a] by (cases "split_sep a") auto
  show ?case using Cons x by simp
qed

lemma split_sep_plain: "CHR ''/'' \<notin> set s \<Longrightarrow> split_sep s = [s]"
  by (induction s) auto

lemma join_sep_Cons: "es \<noteq> [] \<Longrightarrow> join_sep (e # es) = e @ ''/'' @ join_sep es"
  by (cases es) auto

lemma join_sep_snoc: "ys \<noteq> [] \<Longrightarrow> join_sep (ys @ [y]) = join_sep ys @ ''/'' @ y"
proof (induction ys)
  case Nil
  then show ?case by simp
next
  case (Cons e ys)
  show ?case
  proof (cases "ys = []")
    case True
    then show ?thesis by simp
  next
    case False
    with Cons show ?thesis by (simp add: join_sep_Cons)
  qed
qed

lemma split_sep_join_sep_snoc:
  "split_sep (join_sep (zs @ [y])) = concat (map split_sep zs) @ split_sep y"
proof (induction zs)
  case Nil
  show ?case by simp
next
  case (Cons z zs)
  have "join_sep (z # (zs @ [y])) = z @ CHR ''/'' # join_sep (zs @ [y])"
    by (simp add: join_sep_Cons)
  then show ?case using Cons by (simp add: split_sep_append_sep)
qed

lemma clean_elems_snoc_plain:
  "plain_elem y \<Longrightarrow> clean_elems rooted acc (xs @ [y]) = clean_elems rooted acc xs @ [y]"
  by (induction xs arbitrary: acc) (auto simp: plain_elem_def split: list.splits)

lemma clean_elems_snoc_empty: "clean_elems rooted acc (xs @ [[]]) = clean_elems rooted acc xs"
  by (induction xs arbitrary: acc) (auto split: list.splits)

lemma last_split_sep_join_sep:
  assumes "CHR ''/'' \<notin> set y" and "pre = [] \<or> pre = ''/''"
  shows "last (split_sep (pre @ join_sep (ys @ [y]))) = y"
proof (cases "ys = []")
  case True
  with assms show ?thesis by (auto simp: split_sep_plain)
next
  case False
  have "pre @ join_sep (ys @ [y]) = (pre @ join_sep ys) @ CHR ''/'' # y"
    using False by (simp add: join_sep_snoc)
  then have "split_sep (pre @ join_sep (ys @ [y])) = split_sep (pre @ join_sep ys) @ [y]"
    by (simp only: split_sep_append_sep split_sep_plain[OF assms(1)])
  then show ?thesis by simp
qed

lemma path_Clean_nonempty: "path_Clean p \<noteq> []"
  by (simp add: path_Clean_def Let_def)

lemma last_split_sep_path_Clean:
  assumes "split_sep p = xs @ [y]" and "plain_elem y"
  shows "last (split_sep (path_Clean p)) = y"
proof -
  have p: "p \<noteq> []" using assms by (auto simp: plain_elem_def)
  define rooted where "rooted = (hd p = CHR ''/'')"
  define pre where "pre = (if rooted then ''/'' else [])"
  have out: "pre @ join_sep (clean_elems rooted [] (split_sep p))
      = pre @ join_sep (clean_elems rooted [] xs @ [y])"
    using assms by (simp add: clean_elems_snoc_plain)
  have ne: "pre @ join_sep (clean_elems rooted [] xs @ [y]) \<noteq> []"
  proof (cases "clean_elems rooted [] xs = []")
    case True
    then show ?thesis using assms(2) by (simp add: plain_elem_def)
  next
    case False
    then show ?thesis by (simp add: join_sep_snoc)
  qed
  have "path_Clean p = pre @ join_sep (clean_elems rooted [] xs @ [y])"
    using p out ne by (simp add: path_Clean_def Let_def rooted_def pre_def)
  moreover have "CHR ''/'' \<notin> set y" using assms(2) by (simp add: plain_elem_def)
  moreover have "pre = [] \<or> pre = ''/''" by (simp add: pre_def)
  ultimately show ?thesis by (simp add: last_split_sep_join_sep)
qed

lemma dropWhile_snoc_nonempty:
  "y \<noteq> [] \<Longrightarrow> \<exists>zs. dropWhile (\<lambda>e. e = []) (es @ [y]) = zs @ [y]"
  by (induction es) auto

lemma last_split_sep_path_Join:
  assumes "plain_elem y"
  shows "last (split_sep (path_Join (es @ [y]))) = y"
proof -
  have y: "y \<noteq> []" "CHR ''/'' \<notin> set y" using assms by (auto simp: plain_elem_def)
  obtain zs where zs: "dropWhile (\<lambda>e. e = []) (es @ [y]) = zs @ [y]"
    using dropWhile_snoc_nonempty[OF y(1)] by blast
  have "path_Join (es @ [y]) = path_Clean (join_sep (zs @ [y]))"
    unfolding path_Join_def zs by (cases "zs @ [y]") auto
  moreover have "split_sep (join_sep (zs @ [y])) = concat (map split_sep zs) @ [y]"
    by (simp add: split_sep_join_sep_snoc split_sep_plain y)
  ultimately show ?thesis using last_split_sep_path_Clean[OF _ assms] by simp
qed

lemma path_Clean_trailing_sep: "s \<noteq> [] \<Longrightarrow> path_Clean (s @ ''/'') = path_Clean s"
proof -
  assume s: "s \<noteq> []"
  have "split_sep (s @ ''/'') = split_sep s @ [[]]"
    using split_sep_append_sep[of s "[]"] by simp
  moreover have "hd (s @ ''/'') = hd s" using s by simp
  ultimately show ?thesis using s by (simp add: path_Clean_def Let_def clean_elems_snoc_empty)
qed

lemma dropWhile_append_nonempty:
  "dropWhile P xs \<noteq> [] \<Longrightarrow> dropWhile P (xs @ ys) = dropWhile P xs @ ys"
  by (induction xs) auto

lemma path_Join_trailing_empty:
  assumes "y \<noteq> []"
  shows "path_Join (es @ [y, []]) = path_Join (es @ [y])"
proof -
  obtain zs where zs: "dropWhile (\<lambda>e. e = []) (es @ [y]) = zs @ [y]"
    using dropWhile_snoc_nonempty[OF assms] by blast
  have "dropWhile (\<lambda>e. e = []) ((es @ [y]) @ [[]]) = (zs @ [y]) @ [[]]"
    using zs dropWhile_append_nonempty[of "\<lambda>e. e = []" "es @ [y]" "[[]]"] by simp
  then have zs2: "dropWhile (\<lambda>e. e = []) (es @ [y, []]) = zs @ [y, []]" by simp
  have j: "join_sep (zs @ [y, []]) = join_sep (zs @ [y]) @ ''/''"
    using join_sep_snoc[of "zs @ [y]" "[]"] by simp
  have ne: "join_sep (zs @ [y]) \<noteq> []"
    using assms by (cases "zs = []") (simp_all add: join_sep_snoc)
  have "path_Join (es @ [y, []]) = path_Clean (join_sep (zs @ [y, []]))"
    unfolding path_Join_def zs2 by (cases "zs @ [y, []]") auto
  also have "\<dots> = path_Clean (join_sep (zs @ [y]))"
    unfolding j by (rule path_Clean_trailing_sep[OF ne])
  also have "\<dots> = path_Join (es @ [y])"
    unfolding path_Join_def zs by (cases "zs @ [y]") auto
  finally show ?thesis .
qed

lemma path_Join_nonempty: "y \<noteq> [] \<Longrightarrow> path_Join (es @ [y] @ rest) \<noteq> []"
proof -
  assume "y \<noteq> []"
  then have "dropWhile (\<lambda>e. e = []) (es @ [y] @ rest) \<noteq> []"
    by (induction es) auto
  then show ?thesis
    by (cases "dropWhile (\<lambda>e. e = []) (es @ [y] @ rest)") (auto simp: path_Join_def path_Clean_nonempty)
qed

subsection \<open>Hex strings and decimal numerals as file names\<close>

lemma hexdigit_in: "hexdigit n \<in> set ''0123456789abcdef''"
  unfolding hexdigit_def by (rule nth_mem) simp

lemma hex_EncodeToString_chars: "c \<in> set (hex_EncodeToString bs) \<Longrightarrow> c \<in> set ''0123456789abcdef''"
  using hexdigit_in by (auto simp: hex_EncodeToString_def)

lemma hex_EncodeToString_plain: "hex_EncodeToString bs \<noteq> [] \<Longrightarrow> plain_elem (hex_EncodeToString bs)"
proof -
  assume ne: "hex_EncodeToString bs \<noteq> []"
  have "CHR ''/'' \<notin> set (hex_EncodeToString bs)" "CHR ''.'' \<notin> set (hex_EncodeToString bs)"
    using hex_EncodeToString_chars[of _ bs] by auto
  moreover from this(2) have "hex_EncodeToString bs \<noteq> ''.''" "hex_EncodeToString bs \<noteq> ''..''"
    by auto
  ultimately show ?thesis using ne by (simp add: plain_elem_def)
qed

lemma hex_empty_marker_plain: "plain_elem (hex_EncodeToString bs @ ''.empty'')"
proof -
  have "CHR ''/'' \<notin> set (hex_EncodeToString bs)"
    using hex_EncodeToString_chars[of _ bs] by auto
  moreover have "length (hex_EncodeToString bs @ ''.empty'') \<ge> 6" by simp
  then have "hex_EncodeToString bs @ ''.empty'' \<noteq> ''.''" "hex_EncodeToString bs @ ''.empty'' \<noteq> ''..''"
    by (metis length_Cons list.size(3) numeral_le_iff not_less_eq_eq semiring_norm One_nat_def Suc_numeral le_numeral_Suc)+
  ultimately show ?thesis by (simp add: plain_elem_def)
qed

lemma decdigit_in: "decdigit n \<in> set ''0123456789''"
  unfolding decdigit_def by (rule nth_mem) simp

lemma itoa_chars: "c \<in> set (itoa n) \<Longrightarrow> c \<in> set ''0123456789''"
proof (induction n rule: itoa.induct)
  case (1 n)
  show ?case
  proof (cases "n < 10")
    case True
    with "1.prems" decdigit_in[of n] show ?thesis by (simp add: itoa.simps[of n])
  next
    case False
    with "1.prems" "1.IH" decdigit_in[of n] show ?thesis by (auto simp: itoa.simps[of n])
  qed
qed

lemma itoa_nonempty: "itoa n \<noteq> []"
  by (subst itoa.simps) simp

section \<open>Lookup: remote errors and the marker of a remote miss\<close>

lemma blob_Attributes_world:
  "snd (blob_Attributes w key) = w\<lparr>remote_log := remote_log w @ [Attributes key]\<rparr>"
  by (simp add: blob_Attributes_def Let_def split: option.splits prod.splits)

lemma Disk_OutputIDFromAction_absent:
  "fs w (filepath_Join [cacheDir d, actionDir, actionID]) = None \<Longrightarrow>
   Disk_OutputIDFromAction d w actionID = ('''', None)"
  by (simp add: Disk_OutputIDFromAction_def os_Readlink_def Let_def)

text \<open>The path of an action's link and the path of its marker file are different paths.\<close>

lemma marker_path_not_link_path:
  "filepath_Join [c, actionDir, hex_EncodeToString a @ ''.empty'']
     \<noteq> filepath_Join [c, actionDir, hex_EncodeToString a]"
proof
  let ?h = "hex_EncodeToString a"
  assume eq: "filepath_Join [c, actionDir, ?h @ ''.empty''] = filepath_Join [c, actionDir, ?h]"
  have m: "last (split_sep (filepath_Join [c, actionDir, ?h @ ''.empty''])) = ?h @ ''.empty''"
    using last_split_sep_path_Join[OF hex_empty_marker_plain, of "[c, actionDir]" a]
    by (simp add: filepath_Join_def)
  show False
  proof (cases "?h = []")
    case True
    have "plain_elem actionDir" by (simp add: plain_elem_def actionDir_def)
    from last_split_sep_path_Join[OF this, of "[c]"] path_Join_trailing_empty[of actionDir "[c]"]
    have "last (split_sep (filepath_Join [c, actionDir, ?h])) = actionDir"
      using True by (simp add: filepath_Join_def actionDir_def)
    with m eq True show False by (simp add: actionDir_def)
  next
    case False
    from last_split_sep_path_Join[OF hex_EncodeToString_plain[OF False], of "[c, actionDir]"]
    have "last (split_sep (filepath_Join [c, actionDir, ?h])) = ?h"
      by (simp add: filepath_Join_def)
    with m eq show False by simp
  qed
qed

lemma filepath_Join3_nonempty: "y \<noteq> [] \<Longrightarrow> filepath_Join [c, y, z] \<noteq> []"
  using path_Join_nonempty[of y "[c]" "[z]"] by (simp add: filepath_Join_def)

text \<open>
  The later snapshot of \<^verbatim>\<open>Bucket.OutputIDFromAction\<close> (lines 338--381) tests the error of
  the fetch: when the action has no local link, the marker file is not there, and the
  fetch of the action object's attributes fails with an error whose code is not
  \<open>NotFound\<close>, the lookup returns that error, wrapped, with the empty output id; the
  result is not the miss (empty output id and no error).
\<close>

lemma Bucket_OutputIDFromAction_2_remote_error_is_failure:
  assumes "fs w (filepath_Join [cacheDir (disk b), actionDir, actionID]) = None"
    and "\<not> err_nil (os_Stat (fs w) (filepath_Join [cacheDir (disk b), actionDir, actionID @ ''.empty'']))"
    and "fst (blob_Attributes w (path_Join [actionDir, actionID])) = Inl err"
    and "gcerrors_Code (Some err) \<noteq> NotFound"
  shows "Bucket_OutputIDFromAction_2 b w actionID =
           Done ('''', Some (Errorf (''attribute for '' @ actionID @ '': '') err))
             (w\<lparr>remote_log := remote_log w @ [Attributes (path_Join [actionDir, actionID])]\<rparr>)
         \<and> gcerrors_Code (Some (Errorf (''attribute for '' @ actionID @ '': '') err)) = gcerrors_Code (Some err)
         \<and> (\<forall>w'. Bucket_OutputIDFromAction_2 b w actionID \<noteq> Done ('''', None) w')"
proof -
  let ?key = "path_Join [actionDir, actionID]"
  have att: "blob_Attributes w ?key = (Inl err, w\<lparr>remote_log := remote_log w @ [Attributes ?key]\<rparr>)"
    using assms(3) blob_Attributes_world[of w ?key] by (cases "blob_Attributes w ?key") simp
  have "Bucket_OutputIDFromAction_2 b w actionID =
          Done ('''', Some (Errorf (''attribute for '' @ actionID @ '': '') err))
            (w\<lparr>remote_log := remote_log w @ [Attributes ?key]\<rparr>)"
    using assms(2,4) att
    by (simp add: Bucket_OutputIDFromAction_2_def Disk_OutputIDFromAction_absent[OF assms(1)] Let_def)
  then show ?thesis by (simp add: gcerrors_Code_def)
qed

definition bucket0 :: Bucket where
  "bucket0 = \<lparr>disk = cache0\<rparr>"

definition store_denies :: "rcall \<Rightarrow> (gccode \<times> string) option" where
  "store_denies c = Some (PermissionDenied, ''access denied'')"

lemma Bucket_OutputIDFromAction_2_store_denies:
  "Bucket_OutputIDFromAction_2 bucket0 (world0\<lparr>gc_fault := store_denies\<rparr>) ''ab'' =
     Done ('''', Some (Errorf ''attribute for ab: '' (GcError PermissionDenied ''access denied'')))
       (world0\<lparr>gc_fault := store_denies, remote_log := [Attributes ''action/ab'']\<rparr>)"
proof -
  let ?w = "world0\<lparr>gc_fault := store_denies\<rparr>"
  have key: "path_Join [actionDir, ''ab''] = ''action/ab''"
    by (simp add: eval_path)
  have 1: "fs ?w (filepath_Join [cacheDir (disk bucket0), actionDir, ''ab'']) = None"
    by (simp add: bucket0_def cache0_def world0_def eval_path)
  have 2: "\<not> err_nil (os_Stat (fs ?w) (filepath_Join [cacheDir (disk bucket0), actionDir, ''ab'' @ ''.empty'']))"
    by (simp add: bucket0_def cache0_def world0_def eval_path eval_os)
  have 3: "fst (blob_Attributes ?w (path_Join [actionDir, ''ab''])) = Inl (GcError PermissionDenied ''access denied'')"
    by (simp add: blob_Attributes_def store_denies_def)
  have 4: "gcerrors_Code (Some (GcError PermissionDenied ''access denied'')) \<noteq> NotFound"
    by (simp add: gcerrors_Code_def)
  from Bucket_OutputIDFromAction_2_remote_error_is_failure[OF 1 2 3 4]
  show ?thesis by (simp add: key world0_def)
qed

text \<open>
  The earlier snapshot (lines 112--128), the one \<^verbatim>\<open>main.go\<close> is written against, tests
  the fetch for \<open>NotFound\<close> only. After any other error it goes on to read the metadata
  of the attribute record, which is nil: the lookup panics.
\<close>

lemma Bucket_OutputIDFromAction_1_remote_error_panics:
  assumes "fs w (filepath_Join [cacheDir (disk b), actionDir, actionID]) = None"
    and "fst (blob_Attributes w (path_Join [actionDir, actionID])) = Inl err"
    and "gcerrors_Code (Some err) \<noteq> NotFound"
  shows "\<exists>msg w'. Bucket_OutputIDFromAction_1 b w actionID = Panicked msg w'"
proof -
  obtain w1 where "blob_Attributes w (path_Join [actionDir, actionID]) = (Inl err, w1)"
    using assms(2) by (cases "blob_Attributes w (path_Join [actionDir, actionID])") simp
  then show ?thesis using assms(3)
    by (simp add: Bucket_OutputIDFromAction_1_def Disk_OutputIDFromAction_absent[OF assms(1)])
qed

text \<open>
  C2, at an input where the program does not do what the claim says. The action \<open>ab\<close>
  has no local link and no marker, and the object store refuses every call with the
  code \<open>PermissionDenied\<close>. The lookup of lines 112--128 makes the fetch and then does
  not return its error: it panics with a nil dereference.
\<close>

theorem Bucket_OutputIDFromAction_store_denies_panics:
  "fs (world0\<lparr>gc_fault := store_denies\<rparr>) (filepath_Join [cacheDir (disk bucket0), actionDir, ''ab'']) = None
   \<and> fs (world0\<lparr>gc_fault := store_denies\<rparr>)
        (filepath_Join [cacheDir (disk bucket0), actionDir, ''ab'' @ ''.empty'']) = None
   \<and> fst (blob_Attributes (world0\<lparr>gc_fault := store_denies\<rparr>) (path_Join [actionDir, ''ab'']))
        = Inl (GcError PermissionDenied ''access denied'')
   \<and> Bucket_OutputIDFromAction_1 bucket0 (world0\<lparr>gc_fault := store_denies\<rparr>) ''ab'' =
       Panicked ''invalid memory address or nil pointer dereference''
         (world0\<lparr>gc_fault := store_denies, remote_log := [Attributes ''action/ab'']\<rparr>)"
  by (simp add: Bucket_OutputIDFromAction_1_def Disk_OutputIDFromAction_def blob_Attributes_def
        gcerrors_Code_def store_denies_def bucket0_def cache0_def world0_def eval_path eval_os
        os_Readlink_def)

text \<open>
  The marker of a remote miss, which only the later snapshot has. When nothing exists
  under the link path and the marker path of an action id (the hex form of any byte
  sequence) and the attribute fetch fails with code \<open>NotFound\<close>, the lookup of lines
  338--381 reports a miss and leaves the marker file on disk. From then on, in every
  world with that file system, whatever the object store holds or answers, the lookup
  for the same action id reports a miss and returns the world untouched: nothing is
  added to the log of calls to the object store.
\<close>

lemma Bucket_OutputIDFromAction_2_negative_marker:
  assumes "fs w (filepath_Join [cacheDir (disk b), actionDir, hex_EncodeToString a]) = None"
    and "fs w (filepath_Join [cacheDir (disk b), actionDir, hex_EncodeToString a @ ''.empty'']) = None"
    and "fst (blob_Attributes w (path_Join [actionDir, hex_EncodeToString a])) = Inl err"
    and "gcerrors_Code (Some err) = NotFound"
  shows "\<exists>w1. Bucket_OutputIDFromAction_2 b w (hex_EncodeToString a) = Done ('''', None) w1
           \<and> err_nil (os_Stat (fs w1) (filepath_Join [cacheDir (disk b), actionDir, hex_EncodeToString a @ ''.empty'']))
           \<and> (\<forall>w2. fs w2 = fs w1 \<longrightarrow>
                 Bucket_OutputIDFromAction_2 b w2 (hex_EncodeToString a) = Done ('''', None) w2)"
proof -
  let ?h = "hex_EncodeToString a"
  let ?ap = "filepath_Join [cacheDir (disk b), actionDir, ?h]"
  let ?mp = "filepath_Join [cacheDir (disk b), actionDir, ?h @ ''.empty'']"
  let ?key = "path_Join [actionDir, ?h]"
  let ?w0 = "w\<lparr>remote_log := remote_log w @ [Attributes ?key]\<rparr>"
  let ?w1 = "?w0\<lparr>fs := (fs w)(?mp \<mapsto> File [] (clock w))\<rparr>"
  have mp: "?mp \<noteq> []" by (rule filepath_Join3_nonempty) (simp add: actionDir_def)
  have att: "blob_Attributes w ?key = (Inl err, ?w0)"
    using assms(3) blob_Attributes_world[of w ?key] by (cases "blob_Attributes w ?key") simp
  have wf: "os_WriteFile ?w0 ?mp [] = ?w1"
    using mp assms(2) by (simp add: os_WriteFile_def follow_numeral)
  have first: "Bucket_OutputIDFromAction_2 b w ?h = Done ('''', None) ?w1"
    using assms(4) att wf os_Stat_absent[of "fs w" ?mp, OF assms(2)]
    by (simp add: Bucket_OutputIDFromAction_2_def Disk_OutputIDFromAction_absent[OF assms(1)] Let_def)
  have marker: "err_nil (os_Stat (fs ?w1) ?mp)"
    using mp by (simp add: os_Stat_file)
  have later: "Bucket_OutputIDFromAction_2 b w2 ?h = Done ('''', None) w2" if "fs w2 = fs ?w1" for w2
  proof -
    have "fs w2 ?ap = None"
      using that assms(1) marker_path_not_link_path[of "cacheDir (disk b)" a] by simp
    moreover have "err_nil (os_Stat (fs w2) ?mp)"
      using that marker by simp
    ultimately show ?thesis
      by (simp add: Bucket_OutputIDFromAction_2_def Disk_OutputIDFromAction_absent Let_def)
  qed
  from first marker later show ?thesis by blast
qed

lemma hex_ab: "hex_EncodeToString [0xab] = ''ab''"
  by (simp add: hex_EncodeToString_def hexdigit_def)

section \<open>Store: the second store of an output, and a store that fails\<close>

text \<open>
  The temporary file of a write is never its output path when the output id is the hex
  form of a byte sequence: the temporary file's name is \<open>output\<close> followed by digits, the
  output path's last element is the hex string, or \<open>output\<close> itself for the empty one.
\<close>

lemma output_path_last:
  "last (split_sep (filepath_Join [c, outputDir, hex_EncodeToString a]))
     = (if hex_EncodeToString a = [] then outputDir else hex_EncodeToString a)"
proof (cases "hex_EncodeToString a = []")
  case True
  have "plain_elem outputDir" by (simp add: plain_elem_def outputDir_def)
  from last_split_sep_path_Join[OF this, of "[c]"] path_Join_trailing_empty[of outputDir "[c]"]
  show ?thesis using True by (simp add: filepath_Join_def outputDir_def)
next
  case False
  from last_split_sep_path_Join[OF hex_EncodeToString_plain[OF False], of "[c, outputDir]"]
  show ?thesis using False by (simp add: filepath_Join_def)
qed

lemma temp_path_last: "last (split_sep (c @ ''/output'' @ itoa k)) = ''output'' @ itoa k"
proof -
  have "CHR ''/'' \<notin> set (''output'' @ itoa k)"
    using itoa_chars[of "CHR ''/''" k] by auto
  from split_sep_plain[OF this]
  have "split_sep (c @ CHR ''/'' # (''output'' @ itoa k)) = split_sep c @ [''output'' @ itoa k]"
    by (simp only: split_sep_append_sep)
  then show ?thesis by simp
qed

lemma temp_path_not_output_path:
  "c @ ''/output'' @ itoa k \<noteq> filepath_Join [c, outputDir, hex_EncodeToString a]"
proof
  assume eq: "c @ ''/output'' @ itoa k = filepath_Join [c, outputDir, hex_EncodeToString a]"
  then have l: "''output'' @ itoa k = (if hex_EncodeToString a = [] then outputDir else hex_EncodeToString a)"
    using temp_path_last[of c k] output_path_last[of c a] by simp
  show False
  proof (cases "hex_EncodeToString a = []")
    case True
    with l itoa_nonempty[of k] show False by (simp add: outputDir_def)
  next
    case False
    with l have "CHR ''o'' \<in> set (hex_EncodeToString a)"
      by (metis append_Cons list.set_intros(1))
    with hex_EncodeToString_chars[of "CHR ''o''" a] show False by simp
  qed
qed

text \<open>After a successful store the blob is found under the output path.\<close>

lemma Disk_PutOutput_stored:
  assumes "Disk_PutOutput d w (hex_EncodeToString a) r = ((p, ex, None), r', w')"
  shows "p = fst (Disk_GetOutput d (hex_EncodeToString a))
       \<and> err_nil (os_Stat (fs w') (fst (Disk_GetOutput d (hex_EncodeToString a))))
       \<and> w' = w\<lparr>fs := fs w', rand_pos := rand_pos w'\<rparr>"
proof -
  let ?t = "fst (Disk_GetOutput d (hex_EncodeToString a))"
  have t: "?t = filepath_Join [cacheDir d, outputDir, hex_EncodeToString a]"
    by (simp add: Disk_GetOutput_def)
  have ne: "?t \<noteq> []" unfolding t by (rule filepath_Join3_nonempty) (simp add: outputDir_def)
  from Disk_PutOutput_cases[OF assms]
  consider (found) "w' = w" "p = ?t" "err_nil (os_Stat (fs w) ?t)"
    | (written) k where "p = ?t" "w' = w\<lparr>fs := fs w', rand_pos := rand_pos w'\<rparr>"
        "fs w' = ((fs w)(?t \<mapsto> File (rdata r) (clock w)))(cacheDir d @ ''/output'' @ itoa k := None)"
    by auto
  then show ?thesis
  proof cases
    case found
    then show ?thesis by simp
  next
    case written
    have "cacheDir d @ ''/output'' @ itoa k \<noteq> ?t"
      unfolding t by (rule temp_path_not_output_path)
    with written(3) have "fs w' ?t = Some (File (rdata r) (clock w))" by simp
    from os_Stat_file[of "fs w'" ?t, OF this ne] written show ?thesis by simp
  qed
qed

lemma Disk_PutOutput_found:
  assumes "err_nil (os_Stat (fs w) (fst (Disk_GetOutput d outputID)))"
  shows "Disk_PutOutput d w outputID r = ((fst (Disk_GetOutput d outputID), True, None), r, w)"
  using assms by (simp add: Disk_PutOutput_def Disk_GetOutput_def Let_def)

text \<open>
  C4. When a store of an output id (the hex form of any byte sequence) has succeeded,
  its path is the output path of that id and it has added at most that one path to the
  upload queue. Every later store of the same id, in any world with the file system the
  first store left (whatever the stream, the failures to come or the state of the queue),
  returns the same path, reports that the blob existed, hands the stream back unread and
  leaves the world, the queue included, as it was.
\<close>

theorem Bucket_PutOutput_second_store:
  assumes "Bucket_PutOutput b w (hex_EncodeToString oid) r1 = Done ((p1, ex1, None), r1') w1"
  shows "p1 = fst (Disk_GetOutput (disk b) (hex_EncodeToString oid))
       \<and> (jobs w1 = jobs w \<or> jobs w1 = jobs w @ [p1])
       \<and> (\<forall>w2 r2. fs w2 = fs w1 \<longrightarrow>
             Bucket_PutOutput b w2 (hex_EncodeToString oid) r2 = Done ((p1, True, None), r2) w2)"
proof -
  let ?h = "hex_EncodeToString oid"
  let ?t = "fst (Disk_GetOutput (disk b) ?h)"
  obtain p ex err r' w' where dp: "Disk_PutOutput (disk b) w ?h r1 = ((p, ex, err), r', w')"
    by (metis prod_cases3)
  from assms dp have err: "err = None"
    by (auto simp: Bucket_PutOutput_def split: if_splits)
  from Disk_PutOutput_stored[OF dp[unfolded err]]
  have p: "p = ?t" and st: "err_nil (os_Stat (fs w') ?t)"
    and w': "w' = w\<lparr>fs := fs w', rand_pos := rand_pos w'\<rparr>" by auto
  have jw: "jobs w' = jobs w" by (subst w') simp
  from assms dp err have w1: "p1 = p" "w1 = w' \<or> w1 = w'\<lparr>jobs := jobs w' @ [p]\<rparr>"
    by (auto simp: Bucket_PutOutput_def split: if_splits)
  then have fs1: "fs w1 = fs w'" and j1: "jobs w1 = jobs w \<or> jobs w1 = jobs w @ [p1]"
    using jw by auto
  have again: "Bucket_PutOutput b w2 ?h r2 = Done ((p1, True, None), r2) w2" if "fs w2 = fs w1" for w2 r2
  proof -
    from that fs1 st have "err_nil (os_Stat (fs w2) ?t)" by simp
    from Disk_PutOutput_found[OF this] show ?thesis
      using w1(1) p by (simp add: Bucket_PutOutput_def)
  qed
  from p w1(1) j1 again show ?thesis by blast
qed

theorem Bucket_PutOutput_second_store_witness:
  "(case Bucket_PutOutput bucket0 world0 (hex_EncodeToString [0xab]) (Reader [1, 2, 3] None) of
      Done ((p1, ex1, err1), r1') w1 \<Rightarrow>
        p1 = ''/cache/output/ab'' \<and> \<not> ex1 \<and> err1 = None \<and> jobs w1 = [''/cache/output/ab'']
        \<and> Bucket_PutOutput bucket0 w1 (hex_EncodeToString [0xab]) (Reader [1, 2, 3] None)
            = Done ((''/cache/output/ab'', True, None), Reader [1, 2, 3] None) w1
    | Panicked msg w1 \<Rightarrow> False)"
proof -
  let ?call = "Bucket_PutOutput bucket0 world0 (hex_EncodeToString [0xab]) (Reader [1, 2, 3] None)"
  have "\<exists>r1' w1. ?call = Done ((''/cache/output/ab'', False, None), r1') w1 \<and> jobs w1 = [''/cache/output/ab'']"
    by (simp add: Bucket_PutOutput_def Disk_PutOutput_def hex_ab bucket0_def cache0_def world0_def
          eval_path eval_os)
  then obtain r1' w1 where first: "?call = Done ((''/cache/output/ab'', False, None), r1') w1"
    and j: "jobs w1 = [''/cache/output/ab'']" by blast
  from Bucket_PutOutput_second_store[OF first]
  have "Bucket_PutOutput bucket0 w1 (hex_EncodeToString [0xab]) (Reader [1, 2, 3] None)
      = Done ((''/cache/output/ab'', True, None), Reader [1, 2, 3] None) w1"
    by simp
  with first j show ?thesis by simp
qed

text \<open>
  C10. For a cacher whose bucket stores through \<^verbatim>\<open>Bucket.PutOutput\<close> (both snapshots):
  when the write to disk fails, \<^verbatim>\<open>Cacher.Put\<close> returns the empty path with that error, and
  the file system, the upload queue, the object store and the log of calls to it are as
  before the call. No link was made on disk and nothing was sent to the store.
\<close>

theorem Cacher_Put_disk_failure:
  assumes "PutOutput (bucket c) = Bucket_PutOutput b"
    and "Disk_PutOutput (disk b) w (hex_EncodeToString (req_OutputID req)) (req_Body req)
           = ((p, ex, Some e), r', w1)"
  shows "Cacher_Put c w req = Done ('''', Some e) w1
       \<and> fs w1 = fs w \<and> jobs w1 = jobs w \<and> jobs_closed w1 = jobs_closed w
       \<and> objects w1 = objects w \<and> remote_log w1 = remote_log w"
proof -
  from Disk_PutOutput_cases[OF assms(2)]
  have w1: "w1 = w\<lparr>fs := fs w1, rand_pos := rand_pos w1\<rparr>" and fs1: "fs w1 = fs w" by auto
  have "jobs w1 = jobs w" "jobs_closed w1 = jobs_closed w" "objects w1 = objects w"
    "remote_log w1 = remote_log w"
    by (subst w1, simp)+
  moreover have "Cacher_Put c w req = Done ('''', Some e) w1"
    using assms by (simp add: Cacher_Put_def flight_Do_def Bucket_PutOutput_def Let_def)
  ultimately show ?thesis using fs1 by simp
qed

definition cacher1 :: Cacher where
  "cacher1 = \<lparr>bucket = Bucket_Storage_1 bucket0\<rparr>"

definition put_ab :: request where
  "put_ab =
     \<lparr>req_ID = 1, req_Command = cmdPut, req_ActionID = [0x01], req_ObjectID = None,
      req_OutputID = [0xab], req_Body = Reader [1, 2, 3] None, req_BodySize = 3\<rparr>"

theorem Cacher_Put_disk_failure_witness:
  "Cacher_Put cacher1 (world0\<lparr>io_fault := rename_fails\<rparr>) put_ab =
     Done ('''', Some (Errorf ''renaming: '' (LinkError ''rename'' ''/cache/output7'' ''/cache/output/ab'' EIO)))
       (world0\<lparr>io_fault := rename_fails, rand_pos := 1\<rparr>)"
proof -
  let ?w = "world0\<lparr>io_fault := rename_fails\<rparr>"
  have 1: "PutOutput (bucket cacher1) = Bucket_PutOutput bucket0"
    by (simp add: cacher1_def Bucket_Storage_1_def)
  have "\<exists>r'. Disk_PutOutput (disk bucket0) ?w (hex_EncodeToString (req_OutputID put_ab)) (req_Body put_ab)
      = (('''', False, Some (Errorf ''renaming: '' (LinkError ''rename'' ''/cache/output7'' ''/cache/output/ab'' EIO))),
         r', world0\<lparr>io_fault := rename_fails, rand_pos := 1\<rparr>)"
    by (simp add: Disk_PutOutput_def put_ab_def hex_ab bucket0_def cache0_def world0_def rename_fails_def
          eval_path eval_os fun_upd_twist)
  then obtain r' where 2: "Disk_PutOutput (disk bucket0) ?w (hex_EncodeToString (req_OutputID put_ab)) (req_Body put_ab)
      = (('''', False, Some (Errorf ''renaming: '' (LinkError ''rename'' ''/cache/output7'' ''/cache/output/ab'' EIO))),
         r', world0\<lparr>io_fault := rename_fails, rand_pos := 1\<rparr>)" by blast
  from Cacher_Put_disk_failure[OF 1 2] show ?thesis by simp
qed

section \<open>The response to a get\<close>

lemma os_Stat_empty_path: "os_Stat f '''' = Inl (PathError ''stat'' '''' ENOENT)"
  by (simp add: os_Stat_def)

lemma cmd_distinct: "cmdGet \<noteq> cmdClose" "cmdPut \<noteq> cmdClose" "cmdPut \<noteq> cmdGet"
  by (simp_all add: cmdGet_def cmdPut_def cmdClose_def)

text \<open>
  The task of a get sets \<open>Err\<close> when \<^verbatim>\<open>Cacher.Get\<close> returned an error and \<open>Miss\<close> when it
  returned no path (lines 202--207). Its deferred function then inspects the path of the
  response on disk, also when that path is empty: \<^verbatim>\<open>os.Stat("")\<close> fails, and the text of
  that failure replaces whatever \<open>Err\<close> held (lines 173--175). So every response to a get
  that resolved to no path has \<open>Miss\<close> set and carries the error text of the inspection,
  whether the cacher returned an error or not. A get that panics is answered by the same
  deferred function, with that text and \<open>Miss\<close> unset.
\<close>

lemma handle_get_no_path_response:
  assumes "req_Command req = cmdGet"
    and "Cacher_Get c w req = Done ('''', err) w1"
  shows "resp_Miss (fst (handle c req w))
       \<and> resp_DiskPath (fst (handle c req w)) = ''''
       \<and> resp_ID (fst (handle c req w)) = req_ID req
       \<and> resp_Err (fst (handle c req w)) = ''stat : no such file or directory''"
  using assms cmd_distinct
  by (cases err)
     (simp_all add: handle_def Let_def response_for_def deferred_response_def os_Stat_empty_path)

lemma handle_get_panic_response:
  assumes "req_Command req = cmdGet"
    and "Cacher_Get c w req = Panicked msg w1"
  shows "handle c req w =
           (\<lparr>resp_ID = req_ID req, resp_Err = ''stat : no such file or directory'',
             resp_KnownCommands = [], resp_Miss = False, resp_OutputID = [], resp_Size = 0,
             resp_TimeNanos = 0, resp_DiskPath = ''''\<rparr>, w1, Some msg)"
  using assms cmd_distinct
  by (simp add: handle_def Let_def response_for_def deferred_response_def os_Stat_empty_path)

text \<open>
  An action with a local link to output \<open>cd\<close>, whose blob is neither on disk nor in the
  object store; no call fails.
\<close>

definition world_linked :: world where
  "world_linked = world0\<lparr>fs := (fs world0)(''/cache/action/01'' \<mapsto> Symlink ''../output/cd'')\<rparr>"

definition get_01 :: request where
  "get_01 =
     \<lparr>req_ID = 7, req_Command = cmdGet, req_ActionID = [0x01], req_ObjectID = None,
      req_OutputID = [], req_Body = Reader [] None, req_BodySize = 0\<rparr>"

lemma hex_01: "hex_EncodeToString [0x01] = ''01''"
  by (simp add: hex_EncodeToString_def hexdigit_def)

lemma Cacher_Get_world_linked:
  "Cacher_Get cacher1 world_linked get_01 =
     Done ('''', None) (world_linked\<lparr>remote_log := [Download ''output/cd''], rand_pos := 1\<rparr>)"
  by (simp add: Cacher_Get_def cacher1_def Bucket_Storage_1_def flight_Do_def get_01_def hex_01
        Bucket_OutputIDFromAction_1_def Disk_OutputIDFromAction_def Bucket_GetOutput_1_def
        Disk_GetOutput_def blob_Download_def Disk_PutOutput_def gcerrors_Code_def
        world_linked_def bucket0_def cache0_def world0_def eval_path eval_os)

text \<open>
  C1, at an input where the program does not do what the claim says. The get for the
  action of \<open>world_linked\<close> is a miss: \<^verbatim>\<open>Cacher.Get\<close> returns no path and no error, after the
  download of the output found nothing. The response that is written has \<open>Miss\<close> set and
  an \<open>Err\<close> field that is not empty.
\<close>

theorem get_miss_response_has_error_text:
  "Cacher_Get cacher1 world_linked get_01 =
     Done ('''', None) (world_linked\<lparr>remote_log := [Download ''output/cd''], rand_pos := 1\<rparr>)
   \<and> handle cacher1 get_01 world_linked =
       (\<lparr>resp_ID = 7, resp_Err = ''stat : no such file or directory'', resp_KnownCommands = [],
         resp_Miss = True, resp_OutputID = [], resp_Size = 0, resp_TimeNanos = 0, resp_DiskPath = ''''\<rparr>,
        world_linked\<lparr>remote_log := [Download ''output/cd''], rand_pos := 1\<rparr>, None)"
  using cmd_distinct Cacher_Get_world_linked
  by (simp add: handle_def get_01_def response_for_def deferred_response_def os_Stat_empty_path)

text \<open>
  The same get when the object store refuses the download: the cacher returns the error,
  the task puts its text into \<open>Err\<close>, and the deferred function replaces it.
\<close>

lemma get_failed_download_response:
  "(case Cacher_Get cacher1 (world_linked\<lparr>gc_fault := store_denies\<rparr>) get_01 of
      Done r w1 \<Rightarrow>
        r = ('''', Some (Errorf ''copying output to disk: '' (GcError PermissionDenied ''access denied'')))
    | Panicked msg w1 \<Rightarrow> False)
   \<and> fst (handle cacher1 get_01 (world_linked\<lparr>gc_fault := store_denies\<rparr>)) =
       \<lparr>resp_ID = 7, resp_Err = ''stat : no such file or directory'', resp_KnownCommands = [],
        resp_Miss = True, resp_OutputID = [], resp_Size = 0, resp_TimeNanos = 0, resp_DiskPath = ''''\<rparr>"
  using cmd_distinct
  by (simp add: handle_def Cacher_Get_def cacher1_def Bucket_Storage_1_def flight_Do_def get_01_def hex_01
        Bucket_OutputIDFromAction_1_def Disk_OutputIDFromAction_def Bucket_GetOutput_1_def
        Disk_GetOutput_def blob_Download_def Disk_PutOutput_def gcerrors_Code_def store_denies_def
        response_for_def deferred_response_def
        world_linked_def bucket0_def cache0_def world0_def eval_path eval_os)

section \<open>A get for an action that neither tier knows\<close>

text \<open>
  When the lookup of the action reports a miss, \<^verbatim>\<open>Cacher.Get\<close> does not return: it has no
  test of the empty output id (lines 64--71) and goes on to fetch the output with that
  id. The path of the output \<open>''''\<close> is the output directory itself, which exists, so
  \<^verbatim>\<open>Bucket.GetOutput\<close> (both snapshots) returns it as the path of the blob.
\<close>

lemma Bucket_GetOutput_empty_id:
  assumes "err_nil (os_Stat (fs w) (filepath_Join [cacheDir (disk b), outputDir, '''']))"
  shows "Bucket_GetOutput_1 b w '''' = Done (filepath_Join [cacheDir (disk b), outputDir, ''''], None) w"
    and "Bucket_GetOutput_2 b w '''' = Done (filepath_Join [cacheDir (disk b), outputDir, ''''], None) w"
  using assms by (simp_all add: Bucket_GetOutput_1_def Bucket_GetOutput_2_def Disk_GetOutput_def)

lemma Cacher_Get_lookup_miss:
  assumes "OutputIDFromAction (bucket c) w (hex_EncodeToString (req_ActionID req)) = Done ('''', None) w1"
  shows "Cacher_Get c w req = GetOutput (bucket c) w1 ''''"
  using assms by (simp add: Cacher_Get_def flight_Do_def)

text \<open>
  C3, at an input where the program does not do what the claim says. In a cache that
  holds the two directories and nothing else, with an empty object store, the action
  \<open>01\<close> is absent from the local tier and its remote lookup returns not-found. The
  program built from \<^verbatim>\<open>main.go\<close> and lines 1--224 answers the get with the output
  directory as \<open>DiskPath\<close>, \<open>Miss\<close> unset and the error text of the failed hex decoding,
  and leaves no marker: the file system is unchanged. The next get for the same action
  asks the object store again and is answered in the same way; when the object store
  then fails on every call, the next get asks it all the same, and panics.
\<close>

theorem get_unknown_action_is_not_a_miss:
  "handle cacher1 get_01 world0 =
     (\<lparr>resp_ID = 7, resp_Err = ''invalid output id'', resp_KnownCommands = [],
       resp_Miss = False, resp_OutputID = [], resp_Size = 4096, resp_TimeNanos = 0,
       resp_DiskPath = ''/cache/output''\<rparr>,
      world0\<lparr>remote_log := [Attributes ''action/01'']\<rparr>, None)
   \<and> handle cacher1 get_01 (world0\<lparr>remote_log := [Attributes ''action/01'']\<rparr>) =
     (\<lparr>resp_ID = 7, resp_Err = ''invalid output id'', resp_KnownCommands = [],
       resp_Miss = False, resp_OutputID = [], resp_Size = 4096, resp_TimeNanos = 0,
       resp_DiskPath = ''/cache/output''\<rparr>,
      world0\<lparr>remote_log := [Attributes ''action/01'', Attributes ''action/01'']\<rparr>, None)
   \<and> handle cacher1 get_01 (world0\<lparr>remote_log := [Attributes ''action/01''], gc_fault := store_denies\<rparr>) =
     (\<lparr>resp_ID = 7, resp_Err = ''stat : no such file or directory'', resp_KnownCommands = [],
       resp_Miss = False, resp_OutputID = [], resp_Size = 0, resp_TimeNanos = 0,
       resp_DiskPath = ''''\<rparr>,
      world0\<lparr>remote_log := [Attributes ''action/01'', Attributes ''action/01''], gc_fault := store_denies\<rparr>,
      Some ''invalid memory address or nil pointer dereference'')"
  using cmd_distinct
  by (simp add: handle_def Cacher_Get_def cacher1_def Bucket_Storage_1_def flight_Do_def get_01_def hex_01
        Bucket_OutputIDFromAction_1_def Disk_OutputIDFromAction_def Bucket_GetOutput_1_def
        Disk_GetOutput_def blob_Attributes_def gcerrors_Code_def fromHexChar_def store_denies_def
        response_for_def deferred_response_def
        bucket0_def cache0_def world0_def eval_path eval_os)

text \<open>
  With the lookup and the fetch of the later snapshot (lines 226--485) in the cacher's
  bucket, whatever its fourth method is: the first get leaves the marker file, and the
  next get, with an object store that fails on every call, finds it and does not ask the
  store. Both are answered as above, with the output directory and \<open>Miss\<close> unset.
\<close>

lemma get_unknown_action_with_marker:
  fixes L :: "world \<Rightarrow> string \<Rightarrow> string \<Rightarrow> error option outcome"
  defines "c \<equiv> \<lparr>bucket = \<lparr>PutOutput = Bucket_PutOutput bucket0, GetOutput = Bucket_GetOutput_2 bucket0,
                    OutputIDFromAction = Bucket_OutputIDFromAction_2 bucket0,
                    LinkActionToOutput = L\<rparr>\<rparr>"
    and "w1 \<equiv> world0\<lparr>remote_log := [Attributes ''action/01''],
                   fs := (fs world0)(''/cache/action/01.empty'' \<mapsto> File [] 1)\<rparr>"
  shows "handle c get_01 world0 =
     (\<lparr>resp_ID = 7, resp_Err = ''invalid output id'', resp_KnownCommands = [],
       resp_Miss = False, resp_OutputID = [], resp_Size = 4096, resp_TimeNanos = 0,
       resp_DiskPath = ''/cache/output''\<rparr>, w1, None)"
    and "handle c get_01 (w1\<lparr>gc_fault := store_denies\<rparr>) =
     (\<lparr>resp_ID = 7, resp_Err = ''invalid output id'', resp_KnownCommands = [],
       resp_Miss = False, resp_OutputID = [], resp_Size = 4096, resp_TimeNanos = 0,
       resp_DiskPath = ''/cache/output''\<rparr>, w1\<lparr>gc_fault := store_denies\<rparr>, None)"
  using cmd_distinct
  by (simp_all add: c_def w1_def handle_def Cacher_Get_def flight_Do_def get_01_def hex_01
        Bucket_OutputIDFromAction_2_def Disk_OutputIDFromAction_def Bucket_GetOutput_2_def
        Disk_GetOutput_def blob_Attributes_def gcerrors_Code_def fromHexChar_def store_denies_def
        os_WriteFile_def response_for_def deferred_response_def
        bucket0_def cache0_def world0_def eval_path eval_os)

section \<open>Framing of a put\<close>


lemma run_loop_payload_first:
  "run_loop c (JBytes buf # rest) w =
     ([], w, Returned (Some (ErrorString ''json: cannot unmarshal string into Go value of type main.request'')))"
  by (simp add: decode_request_def)



section \<open>Read-only mode\<close>

text \<open>
  C8, as the code has it. In read-only mode the handshake lists \<open>close\<close> and \<open>get\<close> and
  not \<open>put\<close>; otherwise it lists all three. The flag has no other effect: on the same
  input and world, the read-only session writes, after its handshake, the responses of
  the read-write session, handles the same requests (a put among them is executed), and
  leaves the same world and ending.
\<close>

theorem run_readonly_changes_handshake_only:
  "resp_KnownCommands (handshake True) = [cmdClose, cmdGet]
   \<and> resp_KnownCommands (handshake False) = [cmdClose, cmdGet, cmdPut]
   \<and> fst (run c True input w) = handshake True # tl (fst (run c False input w))
   \<and> hd (fst (run c False input w)) = handshake False
   \<and> snd (run c True input w) = snd (run c False input w)"
  by (simp add: run_def handshake_def split: prod.splits)

text \<open>
  C8 as stated fails here: a read-only session receives a put with its payload; the
  task stores the blob, links the action and answers with the blob's path and no error.
\<close>

theorem readonly_put_is_executed:
  "(case run cacher1 True [JObject put_ab, JBytes [1, 2, 3]] world0 of
      (outs, reqs, w', e) \<Rightarrow>
        map resp_KnownCommands outs = [[cmdClose, cmdGet], []]
        \<and> map resp_DiskPath outs = ['''', ''/cache/output/ab'']
        \<and> map resp_Err outs = ['''', '''']
        \<and> map req_Command reqs = [cmdPut]
        \<and> fs w' ''/cache/output/ab'' = Some (File [1, 2, 3] 1)
        \<and> fs w' ''/cache/action/01'' = Some (Symlink ''../output/ab'')
        \<and> jobs w' = [''/cache/output/ab'']
        \<and> e = Returned None)"
  using cmd_distinct
  by (simp add: run_def handshake_def decode_request_def decode_bytes_def put_ab_def Let_def
        handle_def response_for_def deferred_response_def fromHexChar_def
        Cacher_Put_def cacher1_def Bucket_Storage_1_def flight_Do_def hex_ab hex_01
        Bucket_PutOutput_def Disk_PutOutput_def Bucket_LinkActionToOutput_1_def
        Disk_LinkActionToOutput_1_def blob_Upload_def output_id_metadata_def
        bucket0_def cache0_def world0_def eval_path eval_os)

section \<open>The upload pipeline as interleaved tasks\<close>

text \<open>
  The claims above look at one task at a time. The barrier of \<^verbatim>\<open>close\<close> is a property of
  tasks that run together: the put tasks that send paths into \<^verbatim>\<open>b.jobs\<close>, the 20 workers
  of \<^verbatim>\<open>Bucket.Start\<close>, and the tasks of close requests, each of which calls
  \<^verbatim>\<open>Bucket.Close\<close> and then, in its deferred function, writes its response. The model is
  the state these tasks share and one event for each of their steps; a schedule is a list
  of events.
\<close>

datatype wstate = Receiving | Uploading string | Exited

text \<open>
  A close task: before \<^verbatim>\<open>close(b.jobs)\<close>; inside \<^verbatim>\<open>b.wg.Wait()\<close>; back from
  \<^verbatim>\<open>Bucket.Close\<close>; response written. \<^verbatim>\<open>close\<close> of a closed channel panics: the task's
  deferred function still runs and writes the response, then the process ends.
\<close>

datatype tstate = Idle | Waiting | Released | Answered | Panicking | AnsweredPanicking

record pipeline =
  chan :: "string list"
  chan_closed :: bool
  worker :: "nat \<Rightarrow> wstate"
  closer :: "nat \<Rightarrow> tstate"
  sent :: "string list"
  attempted :: "string list"
  crashed :: bool

datatype event =
  Send string
  | Recv nat
  | Finish nat
  | Leave nat
  | CloseChan nat
  | WaitReturn nat
  | Respond nat

text \<open>The state \<^verbatim>\<open>Bucket.Start\<close> leaves: an open, empty channel and 20 workers in their loops.\<close>

definition started :: pipeline where
  "started =
     \<lparr>chan = [], chan_closed = False, worker = (\<lambda>i. Receiving), closer = (\<lambda>t. Idle),
      sent = [], attempted = [], crashed = False\<rparr>"

definition all_workers_exited :: "pipeline \<Rightarrow> bool" where
  "all_workers_exited s = list_all (\<lambda>i. worker s i = Exited) [0..<20]"

text \<open>
  One step of one task; \<open>None\<close> when the task cannot take that step in this state (it is
  blocked, or it is not there), or when the process has ended.
  \<^item> \<open>Send p\<close>: a put task executes \<^verbatim>\<open>b.jobs <- pathname\<close>. It panics on a closed channel
    and waits while the buffer holds 1000 paths.
  \<^item> \<open>Recv i\<close>: worker \<open>i\<close> takes the next path in \<^verbatim>\<open>for pathname := range b.jobs\<close>.
  \<^item> \<open>Finish i\<close>: the body of worker \<open>i\<close>'s loop ends: the file did not open, or the
    upload failed, or it succeeded.
  \<^item> \<open>Leave i\<close>: worker \<open>i\<close> finds the channel closed and empty, leaves the loop and
    calls \<^verbatim>\<open>b.wg.Done()\<close>.
  \<^item> \<open>CloseChan t\<close>: close task \<open>t\<close> executes \<^verbatim>\<open>close(b.jobs)\<close>.
  \<^item> \<open>WaitReturn t\<close>: \<^verbatim>\<open>b.wg.Wait()\<close> returns in task \<open>t\<close>, which it does once all 20 workers
    have called \<^verbatim>\<open>Done\<close>.
  \<^item> \<open>Respond t\<close>: the deferred function of task \<open>t\<close> writes the response.
\<close>

fun step :: "pipeline \<Rightarrow> event \<Rightarrow> pipeline option" where
  "step s (Send p) =
     (if crashed s then None
      else if chan_closed s then Some (s\<lparr>crashed := True\<rparr>)
      else if length (chan s) < 1000 then Some (s\<lparr>chan := chan s @ [p], sent := sent s @ [p]\<rparr>)
      else None)"
| "step s (Recv i) =
     (if crashed s \<or> \<not> i < 20 \<or> worker s i \<noteq> Receiving then None
      else (case chan s of
              [] \<Rightarrow> None
            | p # q \<Rightarrow> Some (s\<lparr>chan := q, worker := (worker s)(i := Uploading p)\<rparr>)))"
| "step s (Finish i) =
     (if crashed s then None
      else (case worker s i of
              Uploading p \<Rightarrow> Some (s\<lparr>worker := (worker s)(i := Receiving), attempted := attempted s @ [p]\<rparr>)
            | _ \<Rightarrow> None))"
| "step s (Leave i) =
     (if crashed s \<or> \<not> i < 20 \<or> worker s i \<noteq> Receiving \<or> chan s \<noteq> [] \<or> \<not> chan_closed s then None
      else Some (s\<lparr>worker := (worker s)(i := Exited)\<rparr>))"
| "step s (CloseChan t) =
     (if crashed s \<or> closer s t \<noteq> Idle then None
      else if chan_closed s then Some (s\<lparr>closer := (closer s)(t := Panicking)\<rparr>)
      else Some (s\<lparr>chan_closed := True, closer := (closer s)(t := Waiting)\<rparr>))"
| "step s (WaitReturn t) =
     (if crashed s \<or> closer s t \<noteq> Waiting \<or> \<not> all_workers_exited s then None
      else Some (s\<lparr>closer := (closer s)(t := Released)\<rparr>))"
| "step s (Respond t) =
     (if crashed s then None
      else if closer s t = Released then Some (s\<lparr>closer := (closer s)(t := Answered)\<rparr>)
      else if closer s t = Panicking then Some (s\<lparr>closer := (closer s)(t := AnsweredPanicking), crashed := True\<rparr>)
      else None)"

fun run_events :: "pipeline \<Rightarrow> event list \<Rightarrow> pipeline option" where
  "run_events s [] = Some s"
| "run_events s (e # es) = (case step s e of None \<Rightarrow> None | Some s' \<Rightarrow> run_events s' es)"

text \<open>What holds in every state the tasks can reach.\<close>

definition pipeline_inv :: "pipeline \<Rightarrow> bool" where
  "pipeline_inv s =
     ((\<forall>i. worker s i = Exited \<longrightarrow> chan_closed s \<and> chan s = [])
      \<and> (\<forall>i. \<not> i < 20 \<longrightarrow> worker s i = Receiving)
      \<and> (\<forall>t. closer s t = Released \<or> closer s t = Answered \<longrightarrow> (\<forall>i<20. worker s i = Exited))
      \<and> set (sent s) \<subseteq> set (attempted s) \<union> set (chan s) \<union> {p. \<exists>i. worker s i = Uploading p})"

lemma all_workers_exited_iff: "all_workers_exited s = (\<forall>i<20. worker s i = Exited)"
  by (auto simp: all_workers_exited_def list_all_iff)

lemma pipeline_inv_started: "pipeline_inv started"
  by (simp add: pipeline_inv_def started_def)


lemma step_Send:
  assumes "step s (Send p) = Some s'"
  shows "(chan_closed s \<and> s' = s\<lparr>crashed := True\<rparr>)
       \<or> (\<not> chan_closed s \<and> s' = s\<lparr>chan := chan s @ [p], sent := sent s @ [p]\<rparr>)"
  using assms by (auto split: if_splits)

lemma step_Recv:
  assumes "step s (Recv i) = Some s'"
  shows "\<exists>p q. chan s = p # q \<and> worker s i = Receiving
           \<and> s' = s\<lparr>chan := q, worker := (worker s)(i := Uploading p)\<rparr>"
  using assms by (auto split: if_splits list.splits)

lemma step_Finish:
  assumes "step s (Finish i) = Some s'"
  shows "\<exists>p. worker s i = Uploading p
           \<and> s' = s\<lparr>worker := (worker s)(i := Receiving), attempted := attempted s @ [p]\<rparr>"
  using assms by (auto split: if_splits wstate.splits)

lemma step_Leave:
  assumes "step s (Leave i) = Some s'"
  shows "i < 20 \<and> worker s i = Receiving \<and> chan s = [] \<and> chan_closed s
           \<and> s' = s\<lparr>worker := (worker s)(i := Exited)\<rparr>"
  using assms by (auto split: if_splits)

lemma step_CloseChan:
  assumes "step s (CloseChan t) = Some s'"
  shows "closer s t = Idle
       \<and> ((chan_closed s \<and> s' = s\<lparr>closer := (closer s)(t := Panicking)\<rparr>)
          \<or> (s' = s\<lparr>chan_closed := True, closer := (closer s)(t := Waiting)\<rparr>))"
  using assms by (auto split: if_splits)

lemma step_WaitReturn:
  assumes "step s (WaitReturn t) = Some s'"
  shows "(\<forall>i<20. worker s i = Exited) \<and> s' = s\<lparr>closer := (closer s)(t := Released)\<rparr>"
  using assms by (auto simp: all_workers_exited_iff split: if_splits)

lemma step_Respond:
  assumes "step s (Respond t) = Some s'"
  shows "(closer s t = Released \<and> s' = s\<lparr>closer := (closer s)(t := Answered)\<rparr>)
       \<or> (closer s t = Panicking \<and> s' = s\<lparr>closer := (closer s)(t := AnsweredPanicking), crashed := True\<rparr>)"
  using assms by (auto split: if_splits)

lemma pipeline_inv_step:
  assumes inv: "pipeline_inv s" and st: "step s e = Some s'"
  shows "pipeline_inv s'"
proof -
  from inv have i1: "\<And>i. worker s i = Exited \<Longrightarrow> chan_closed s \<and> chan s = []"
    and i2: "\<And>i. \<not> i < 20 \<Longrightarrow> worker s i = Receiving"
    and i3: "\<And>t i. closer s t = Released \<or> closer s t = Answered \<Longrightarrow> i < 20 \<Longrightarrow> worker s i = Exited"
    and i4: "\<And>p. p \<in> set (sent s) \<Longrightarrow>
               p \<in> set (attempted s) \<or> p \<in> set (chan s) \<or> (\<exists>i. worker s i = Uploading p)"
    unfolding pipeline_inv_def by blast+
  have goal: "pipeline_inv s'"
    if g1: "\<And>i. worker s' i = Exited \<Longrightarrow> chan_closed s' \<and> chan s' = []"
    and g2: "\<And>i. \<not> i < 20 \<Longrightarrow> worker s' i = Receiving"
    and g3: "\<And>t i. closer s' t = Released \<or> closer s' t = Answered \<Longrightarrow> i < 20 \<Longrightarrow> worker s' i = Exited"
    and g4: "\<And>p. p \<in> set (sent s') \<Longrightarrow>
               p \<in> set (attempted s') \<or> p \<in> set (chan s') \<or> (\<exists>i. worker s' i = Uploading p)"
    unfolding pipeline_inv_def using g1 g2 g3 g4 by blast
  show ?thesis
  proof (cases e)
    case (Send p)
    from step_Send[OF st[unfolded Send]] show ?thesis
    proof
      assume "chan_closed s \<and> s' = s\<lparr>crashed := True\<rparr>"
      then have s': "s' = s\<lparr>crashed := True\<rparr>" by simp
      show ?thesis by (rule goal) (use i1 i2 i3 i4 in \<open>simp_all add: s'\<close>)
    next
      assume a: "\<not> chan_closed s \<and> s' = s\<lparr>chan := chan s @ [p], sent := sent s @ [p]\<rparr>"
      then have s': "s' = s\<lparr>chan := chan s @ [p], sent := sent s @ [p]\<rparr>" by simp
      show ?thesis
      proof (rule goal)
        fix i :: nat assume "worker s' i = Exited"
        then have "worker s i = Exited" by (simp add: s')
        with i1 a show "chan_closed s' \<and> chan s' = []" by blast
      next
        fix i :: nat assume "\<not> i < 20" with i2 show "worker s' i = Receiving" by (simp add: s')
      next
        fix t i :: nat assume "closer s' t = Released \<or> closer s' t = Answered" "i < 20"
        with i3 show "worker s' i = Exited" by (simp add: s')
      next
        fix q assume "q \<in> set (sent s')"
        then have "q = p \<or> q \<in> set (sent s)" by (auto simp: s')
        with i4[of q] show "q \<in> set (attempted s') \<or> q \<in> set (chan s') \<or> (\<exists>i. worker s' i = Uploading q)"
          by (auto simp: s')
      qed
    qed
  next
    case (Recv i)
    from step_Recv[OF st[unfolded Recv]] obtain p q where c: "chan s = p # q"
      and wi: "worker s i = Receiving"
      and s': "s' = s\<lparr>chan := q, worker := (worker s)(i := Uploading p)\<rparr>" by blast
    have ne: "worker s j \<noteq> Exited" for j using i1[of j] c by auto
    show ?thesis
    proof (rule goal)
      fix j :: nat assume "worker s' j = Exited"
      then have "worker s j = Exited" by (simp add: s' split: if_splits)
      with ne show "chan_closed s' \<and> chan s' = []" by blast
    next
      fix j :: nat assume j: "\<not> j < 20"
      have "i < 20" using wi st Recv by (auto split: if_splits)
      with j i2[of j] show "worker s' j = Receiving" by (auto simp: s')
    next
      fix t j :: nat assume "closer s' t = Released \<or> closer s' t = Answered" "j < 20"
      then have "worker s j = Exited" using i3[of t j] by (simp add: s')
      with ne show "worker s' j = Exited" by blast
    next
      fix x assume "x \<in> set (sent s')"
      then have x: "x \<in> set (sent s)" by (simp add: s')
      from i4[OF x] consider "x \<in> set (attempted s)" | "x = p" | "x \<in> set q"
        | j where "worker s j = Uploading x" using c by auto
      then show "x \<in> set (attempted s') \<or> x \<in> set (chan s') \<or> (\<exists>i. worker s' i = Uploading x)"
      proof cases
        case 1 then show ?thesis by (simp add: s')
      next
        case 2 then have "worker s' i = Uploading x" by (simp add: s')
        then show ?thesis by blast
      next
        case 3 then show ?thesis by (simp add: s')
      next
        case 4
        with wi have "j \<noteq> i" by auto
        with 4 have "worker s' j = Uploading x" by (simp add: s')
        then show ?thesis by blast
      qed
    qed
  next
    case (Finish i)
    from step_Finish[OF st[unfolded Finish]] obtain p where wi: "worker s i = Uploading p"
      and s': "s' = s\<lparr>worker := (worker s)(i := Receiving), attempted := attempted s @ [p]\<rparr>" by blast
    have i20: "i < 20" using i2[of i] wi by (cases "i < 20") auto
    show ?thesis
    proof (rule goal)
      fix j :: nat assume "worker s' j = Exited"
      then have "worker s j = Exited" by (simp add: s' split: if_splits)
      with i1 show "chan_closed s' \<and> chan s' = []" by (simp add: s')
    next
      fix j :: nat assume "\<not> j < 20"
      with i2[of j] show "worker s' j = Receiving" by (simp add: s')
    next
      fix t j :: nat assume a: "closer s' t = Released \<or> closer s' t = Answered" "j < 20"
      then have "closer s t = Released \<or> closer s t = Answered" by (simp add: s')
      from i3[OF this i20] wi show "worker s' j = Exited" by simp
    next
      fix x assume "x \<in> set (sent s')"
      then have x: "x \<in> set (sent s)" by (simp add: s')
      from i4[OF x] consider "x \<in> set (attempted s)" | "x \<in> set (chan s)"
        | j where "worker s j = Uploading x" by auto
      then show "x \<in> set (attempted s') \<or> x \<in> set (chan s') \<or> (\<exists>i. worker s' i = Uploading x)"
      proof cases
        case 1 then show ?thesis by (simp add: s')
      next
        case 2 then show ?thesis by (simp add: s')
      next
        case 3
        show ?thesis
        proof (cases "j = i")
          case True
          with 3 wi have "x = p" by simp
          then show ?thesis by (simp add: s')
        next
          case False
          with 3 have "worker s' j = Uploading x" by (simp add: s')
          then show ?thesis by blast
        qed
      qed
    qed
  next
    case (Leave i)
    from step_Leave[OF st[unfolded Leave]] have i20: "i < 20" and wi: "worker s i = Receiving"
      and c: "chan s = []" and cl: "chan_closed s"
      and s': "s' = s\<lparr>worker := (worker s)(i := Exited)\<rparr>" by auto
    show ?thesis
    proof (rule goal)
      fix j :: nat assume "worker s' j = Exited"
      show "chan_closed s' \<and> chan s' = []" using c cl by (simp add: s')
    next
      fix j :: nat assume "\<not> j < 20"
      with i2[of j] i20 show "worker s' j = Receiving" by (auto simp: s')
    next
      fix t j :: nat assume a: "closer s' t = Released \<or> closer s' t = Answered" "j < 20"
      then have "closer s t = Released \<or> closer s t = Answered" by (simp add: s')
      from i3[OF this a(2)] show "worker s' j = Exited" by (simp add: s')
    next
      fix x assume "x \<in> set (sent s')"
      then have x: "x \<in> set (sent s)" by (simp add: s')
      from i4[OF x] c consider "x \<in> set (attempted s)" | j where "worker s j = Uploading x" by auto
      then show "x \<in> set (attempted s') \<or> x \<in> set (chan s') \<or> (\<exists>i. worker s' i = Uploading x)"
      proof cases
        case 1 then show ?thesis by (simp add: s')
      next
        case 2
        with wi have "j \<noteq> i" by auto
        with 2 have "worker s' j = Uploading x" by (simp add: s')
        then show ?thesis by blast
      qed
    qed
  next
    case (CloseChan t)
    from step_CloseChan[OF st[unfolded CloseChan]]
    have idle: "closer s t = Idle"
      and s': "s' = s\<lparr>closer := (closer s)(t := Panicking)\<rparr> \<and> chan_closed s
             \<or> s' = s\<lparr>chan_closed := True, closer := (closer s)(t := Waiting)\<rparr>" by auto
    then have w: "worker s' = worker s" and c: "chan s' = chan s" and se: "sent s' = sent s"
      and at: "attempted s' = attempted s" and cc: "chan_closed s \<Longrightarrow> chan_closed s'"
      and cl: "\<And>u. closer s' u = Released \<or> closer s' u = Answered \<Longrightarrow>
                 closer s u = Released \<or> closer s u = Answered"
      by (auto split: if_splits)
    show ?thesis
    proof (rule goal)
      fix j :: nat assume "worker s' j = Exited"
      with i1[of j] w c cc show "chan_closed s' \<and> chan s' = []" by simp
    next
      fix j :: nat assume "\<not> j < 20" with i2[of j] w show "worker s' j = Receiving" by simp
    next
      fix u j :: nat assume "closer s' u = Released \<or> closer s' u = Answered" "j < 20"
      with cl[of u] i3[of u j] w show "worker s' j = Exited" by simp
    next
      fix x assume "x \<in> set (sent s')"
      with i4[of x] w c se at
      show "x \<in> set (attempted s') \<or> x \<in> set (chan s') \<or> (\<exists>i. worker s' i = Uploading x)" by simp
    qed
  next
    case (WaitReturn t)
    from step_WaitReturn[OF st[unfolded WaitReturn]]
    have ex: "\<And>i. i < 20 \<Longrightarrow> worker s i = Exited"
      and s': "s' = s\<lparr>closer := (closer s)(t := Released)\<rparr>" by auto
    show ?thesis
    proof (rule goal)
      fix j :: nat assume "worker s' j = Exited"
      with i1[of j] show "chan_closed s' \<and> chan s' = []" by (simp add: s')
    next
      fix j :: nat assume "\<not> j < 20" with i2[of j] show "worker s' j = Receiving" by (simp add: s')
    next
      fix u j :: nat assume "closer s' u = Released \<or> closer s' u = Answered" "j < 20"
      with ex[of j] show "worker s' j = Exited" by (simp add: s')
    next
      fix x assume "x \<in> set (sent s')"
      with i4[of x]
      show "x \<in> set (attempted s') \<or> x \<in> set (chan s') \<or> (\<exists>i. worker s' i = Uploading x)"
        by (simp add: s')
    qed
  next
    case (Respond t)
    from step_Respond[OF st[unfolded Respond]]
    have w: "worker s' = worker s" and c: "chan s' = chan s" and se: "sent s' = sent s"
      and at: "attempted s' = attempted s" and cc: "chan_closed s' = chan_closed s"
      and cl: "\<And>u. closer s' u = Released \<or> closer s' u = Answered \<Longrightarrow>
                 closer s u = Released \<or> closer s u = Answered"
      by (auto split: if_splits)
    show ?thesis
    proof (rule goal)
      fix j :: nat assume "worker s' j = Exited"
      with i1[of j] w c cc show "chan_closed s' \<and> chan s' = []" by simp
    next
      fix j :: nat assume "\<not> j < 20" with i2[of j] w show "worker s' j = Receiving" by simp
    next
      fix u j :: nat assume "closer s' u = Released \<or> closer s' u = Answered" "j < 20"
      with cl[of u] i3[of u j] w show "worker s' j = Exited" by simp
    next
      fix x assume "x \<in> set (sent s')"
      with i4[of x] w c se at
      show "x \<in> set (attempted s') \<or> x \<in> set (chan s') \<or> (\<exists>i. worker s' i = Uploading x)" by simp
    qed
  qed
qed

lemma pipeline_inv_run:
  "pipeline_inv s \<Longrightarrow> run_events s es = Some s' \<Longrightarrow> pipeline_inv s'"
proof (induction es arbitrary: s)
  case Nil
  then show ?case by simp
next
  case (Cons e es)
  from Cons.prems(2) obtain s1 where s1: "step s e = Some s1" and r: "run_events s1 es = Some s'"
    by (auto split: option.splits)
  from Cons.IH[OF pipeline_inv_step[OF Cons.prems(1) s1] r] show ?case .
qed

text \<open>
  In the protocol a session has one close request, the last request of the session. What
  holds while only one task, \<open>t0\<close>, closes the channel: no other close task has moved,
  the channel is closed only once \<open>t0\<close> has closed it, and \<open>t0\<close> has not panicked.
\<close>

definition single_closer :: "nat \<Rightarrow> pipeline \<Rightarrow> bool" where
  "single_closer t0 s =
     ((\<forall>t. t \<noteq> t0 \<longrightarrow> closer s t = Idle)
      \<and> (chan_closed s \<longrightarrow> closer s t0 \<noteq> Idle)
      \<and> closer s t0 \<noteq> Panicking \<and> closer s t0 \<noteq> AnsweredPanicking)"

lemma single_closer_started: "single_closer t0 started"
  by (simp add: single_closer_def started_def)

lemma single_closer_step:
  assumes sc: "single_closer t0 s" and st: "step s e = Some s'"
    and only: "\<And>t. e = CloseChan t \<Longrightarrow> t = t0"
  shows "single_closer t0 s'"
proof (cases e)
  case (Send p)
  from step_Send[OF st[unfolded Send]] sc show ?thesis
    by (auto simp: single_closer_def)
next
  case (Recv i)
  from step_Recv[OF st[unfolded Recv]] sc show ?thesis
    by (auto simp: single_closer_def)
next
  case (Finish i)
  from step_Finish[OF st[unfolded Finish]] sc show ?thesis
    by (auto simp: single_closer_def)
next
  case (Leave i)
  from step_Leave[OF st[unfolded Leave]] sc show ?thesis
    by (auto simp: single_closer_def)
next
  case (CloseChan t)
  with only have t: "t = t0" by simp
  from step_CloseChan[OF st[unfolded CloseChan]] sc t show ?thesis
    by (auto simp: single_closer_def)
next
  case (WaitReturn t)
  from st WaitReturn have w: "closer s t = Waiting" by (auto split: if_splits)
  with sc have t: "t = t0" by (auto simp: single_closer_def)
  from step_WaitReturn[OF st[unfolded WaitReturn]] sc t show ?thesis
    by (auto simp: single_closer_def)
next
  case (Respond t)
  from step_Respond[OF st[unfolded Respond]] sc show ?thesis
    by (cases "t = t0") (auto simp: single_closer_def)
qed

lemma single_closer_run:
  "single_closer t0 s \<Longrightarrow> run_events s es = Some s' \<Longrightarrow> (\<forall>t. CloseChan t \<in> set es \<longrightarrow> t = t0)
     \<Longrightarrow> single_closer t0 s'"
proof (induction es arbitrary: s)
  case Nil
  then show ?case by simp
next
  case (Cons e es)
  from Cons.prems(2) obtain s1 where s1: "step s e = Some s1" and r: "run_events s1 es = Some s'"
    by (auto split: option.splits)
  have "single_closer t0 s1"
  proof (rule single_closer_step[OF Cons.prems(1) s1])
    fix t assume "e = CloseChan t"
    with Cons.prems(3) show "t = t0" by simp
  qed
  from Cons.IH[OF this r] Cons.prems(3) show ?case by simp
qed

text \<open>
  C6. In every state that the put tasks, the 20 workers and the task of the session's
  close request \<open>t0\<close> can reach from the start of the pipeline, under any schedule: when
  the response to a close request has been written, it is the response of \<open>t0\<close>, whose
  call of \<^verbatim>\<open>Bucket.Close\<close> has returned; the channel is closed and empty; all 20 workers
  have left their loops; and every path ever sent into the channel has had its upload
  attempted (completed or failed).
\<close>

theorem close_response_after_drain:
  assumes "run_events started es = Some s"
    and "\<forall>t. CloseChan t \<in> set es \<longrightarrow> t = t0"
    and "closer s t = Answered \<or> closer s t = AnsweredPanicking"
  shows "t = t0 \<and> closer s t = Answered \<and> chan_closed s \<and> chan s = []
       \<and> (\<forall>i<20. worker s i = Exited) \<and> set (sent s) \<subseteq> set (attempted s)"
proof -
  from single_closer_run[OF single_closer_started assms(1,2)] have sc: "single_closer t0 s" .
  with assms(3) have t: "t = t0" and a: "closer s t = Answered"
    by (auto simp: single_closer_def)
  from pipeline_inv_run[OF pipeline_inv_started assms(1)] have inv: "pipeline_inv s" .
  then have i1: "\<And>i. worker s i = Exited \<Longrightarrow> chan_closed s \<and> chan s = []"
    and i2: "\<And>i. \<not> i < 20 \<Longrightarrow> worker s i = Receiving"
    and i3: "\<And>t i. closer s t = Released \<or> closer s t = Answered \<Longrightarrow> i < 20 \<Longrightarrow> worker s i = Exited"
    and i4: "\<And>p. p \<in> set (sent s) \<Longrightarrow>
               p \<in> set (attempted s) \<or> p \<in> set (chan s) \<or> (\<exists>i. worker s i = Uploading p)"
    unfolding pipeline_inv_def by blast+
  have ex: "worker s i = Exited" if "i < 20" for i
    using i3[of t i] a that by simp
  from i1[OF ex[of 0]] have c: "chan_closed s" "chan s = []" by simp_all
  have idle: "worker s i \<noteq> Uploading p" for i p
    using ex[of i] i2[of i] by (cases "i < 20") simp_all
  have "p \<in> set (attempted s)" if "p \<in> set (sent s)" for p
    using i4[OF that] c idle by simp
  with c ex t a show ?thesis by blast
qed

text \<open>
  One path is sent and uploaded, the channel is closed, the workers leave, the close
  task returns and answers.
\<close>

lemma upt_20:
  "[0..<20] = [0, 1, 2, 3, 4, 5, 6, 7, 8, 9, 10, 11, 12, 13, 14, 15, 16, 17, 18, 19]"
  by code_simp

definition drained_schedule :: "event list" where
  "drained_schedule =
     [Send ''/cache/output/ab'', CloseChan 1, Recv 0, Finish 0] @ map Leave [0..<20]
     @ [WaitReturn 1, Respond 1]"

theorem close_response_after_drain_witness:
  "(case run_events started drained_schedule of
      None \<Rightarrow> False
    | Some s \<Rightarrow>
        closer s 1 = Answered \<and> chan_closed s \<and> chan s = []
        \<and> sent s = [''/cache/output/ab''] \<and> set (sent s) \<subseteq> set (attempted s))"
proof -
  have "\<exists>s. run_events started drained_schedule = Some s \<and> closer s 1 = Answered
          \<and> sent s = [''/cache/output/ab'']"
    by (simp add: drained_schedule_def started_def all_workers_exited_def upt_20)
  then obtain s where r: "run_events started drained_schedule = Some s"
    and a: "closer s 1 = Answered" and se: "sent s = [''/cache/output/ab'']" by blast
  have only: "\<forall>t. CloseChan t \<in> set drained_schedule \<longrightarrow> t = 1"
    by (auto simp: drained_schedule_def)
  from a have "closer s 1 = Answered \<or> closer s 1 = AnsweredPanicking" by simp
  from close_response_after_drain[OF r only this] r a se show ?thesis by simp
qed

text \<open>
  A session that sends a second close request is outside the protocol. \<^verbatim>\<open>Bucket.Close\<close>
  has no guard for it: a path has been sent and worker 0 is uploading it when the first
  close request closes the channel and waits; the second close request panics in
  \<^verbatim>\<open>close(b.jobs)\<close>, its deferred function writes its response while the upload is still
  running, and the process ends.
\<close>

lemma second_close_panics:
  "(case run_events started
           [Send ''/cache/output/ab'', Recv 0, CloseChan 1, CloseChan 2, Respond 2] of
      None \<Rightarrow> False
    | Some s \<Rightarrow>
        closer s 2 = AnsweredPanicking \<and> closer s 1 = Waiting \<and> crashed s
        \<and> worker s 0 = Uploading ''/cache/output/ab''
        \<and> ''/cache/output/ab'' \<in> set (sent s) \<and> ''/cache/output/ab'' \<notin> set (attempted s))"
  by (simp add: started_def)

section \<open>Callers that share a call in flight\<close>




























end
